theory Spec2Isabelle
  imports Complex_Main
begin

section \<open>Data model (types.ts)\<close>

text \<open>
  A JavaScript \<open>number\<close> is modelled as a \<open>real\<close>: arithmetic is exact, and the
  values NaN and Infinity do not exist. Every statement below about coordinates, scales
  and angles is a statement about this exact arithmetic.

  Field names carry a short prefix where the source reuses a name in several interfaces
  (\<open>x\<close>, \<open>y\<close>, \<open>id\<close>, \<open>label\<close>, \<open>color\<close>, \<open>points\<close>) or where the name is a constant
  of HOL: \<open>Point2D.x\<close> is \<open>px\<close>, \<open>Point3D.x\<close> is \<open>p3x\<close>, \<open>Point3D.id\<close> is \<open>pid\<close>,
  \<open>Edge.id\<close> is \<open>eid\<close>, \<open>Edge.from\<close> is \<open>efrom\<close>, and so on. An optional field
  (\<open>label?: string\<close>) is an \<open>option\<close>.
\<close>

record Point2D =
  px :: real
  py :: real

record Point3D =
  pid :: string
  p3x :: real
  p3y :: real
  p3z :: real
  label :: "string option"
  color :: "string option"
  labelOffset :: "Point2D option"
  linkedIds :: "string list option"

datatype Marker = tick | double_tick | arrow | double_arrow

record Edge =
  eid :: string
  efrom :: string
  eto :: string
  ecolor :: "string option"
  thickness :: "real option"
  elabel :: "string option"
  marker :: "Marker option"

text \<open>
  \<open>FreehandStroke.id\<close> is \<open>Date.now().toString()\<close>; the model keeps the number that
  \<open>Date.now()\<close> returned (its decimal rendering is injective).
\<close>

record FreehandStroke =
  sid :: nat
  spoints :: "Point2D list"
  scolor :: string
  swidth :: real

datatype GeometryType = TwoD | ThreeD

text \<open>
  Of \<open>GeometryData\<close> the model keeps the fields that the canvas's handlers and memoised
  maps read or write: \<open>points\<close>, \<open>edges\<close>, \<open>drawings\<close> and \<open>type\<close>. Faces, angles,
  steps and the text fields are only rendered.
\<close>

record GeometryData =
  points :: "Point3D list"
  edges :: "Edge list"
  drawings :: "FreehandStroke list option"
  gtype :: GeometryType

section \<open>geometryUtils.ts\<close>

definition projectPoint :: "Point3D \<Rightarrow> real \<Rightarrow> real \<Rightarrow> real \<Rightarrow> real \<Rightarrow> real \<Rightarrow> Point2D" where
  "projectPoint point angleX angleY scale canvasWidth canvasHeight =
     (let radX = (angleX * pi) / 180;
          radY = (angleY * pi) / 180;
          x = p3x point * cos radY - p3z point * sin radY;
          z = p3x point * sin radY + p3z point * cos radY;
          y = p3y point;
          y_new = y * cos radX - z * sin radX;
          z' = y * sin radX + z * cos radX;
          y' = y_new;
          projectedX = x * scale + canvasWidth / 2;
          projectedY = - y' * scale + canvasHeight / 2
      in \<lparr>px = projectedX, py = projectedY\<rparr>)"

text \<open>The accumulator of the \<open>reduce\<close> calls: an object with the fields x, y, z.\<close>

type_synonym acc3 = "real \<times> real \<times> real"

definition add3 :: "acc3 \<Rightarrow> Point3D \<Rightarrow> acc3" where
  "add3 acc p = (case acc of (ax, ay, az) \<Rightarrow> (ax + p3x p, ay + p3y p, az + p3z p))"

definition mkPoint3D :: "string \<Rightarrow> real \<Rightarrow> real \<Rightarrow> real \<Rightarrow> Point3D" where
  "mkPoint3D i a b c =
     \<lparr>pid = i, p3x = a, p3y = b, p3z = c, label = None, color = None,
      labelOffset = None, linkedIds = None\<rparr>"

definition getCenterPoint :: "Point3D list \<Rightarrow> Point3D" where
  "getCenterPoint pts =
     (if length pts = 0 then mkPoint3D ''center'' 0 0 0
      else (case foldl add3 (0, 0, 0) pts of
              (sx, sy, sz) \<Rightarrow>
                mkPoint3D ''center'' (sx / real (length pts)) (sy / real (length pts))
                  (sz / real (length pts))))"

definition get3DCentroid :: "Point3D list \<Rightarrow> Point3D" where
  "get3DCentroid pts =
     (if length pts = 0 then mkPoint3D ''temp_center'' 0 0 0
      else (let count = real (length pts) in
            case foldl add3 (0, 0, 0) pts of
              (sx, sy, sz) \<Rightarrow> mkPoint3D ''temp_center'' (sx / count) (sy / count) (sz / count)))"

definition add2 :: "real \<times> real \<Rightarrow> Point2D \<Rightarrow> real \<times> real" where
  "add2 acc p = (case acc of (ax, ay) \<Rightarrow> (ax + px p, ay + py p))"

definition get2DCentroid :: "Point2D list \<Rightarrow> Point2D" where
  "get2DCentroid pts =
     (if length pts = 0 then \<lparr>px = 0, py = 0\<rparr>
      else (case foldl add2 (0, 0) pts of
              (sx, sy) \<Rightarrow> \<lparr>px = sx / real (length pts), py = sy / real (length pts)\<rparr>))"

text \<open>
  The body of the \<open>forEach\<close> in \<open>getSmartLabelDirection\<close>: one neighbour added to the
  running sums \<open>(sumX, sumY)\<close>.
\<close>

definition addNeighbor :: "Point2D \<Rightarrow> real \<times> real \<Rightarrow> Point2D \<Rightarrow> real \<times> real" where
  "addNeighbor currentPoint acc nb =
     (case acc of (sumX, sumY) \<Rightarrow>
        (let dx = px nb - px currentPoint;
             dy = py nb - py currentPoint;
             len = sqrt (dx * dx + dy * dy)
         in if len > 0 then (sumX + dx / len, sumY + dy / len) else (sumX, sumY)))"

definition getSmartLabelDirection :: "Point2D \<Rightarrow> Point2D list \<Rightarrow> Point2D \<Rightarrow> Point2D" where
  "getSmartLabelDirection currentPoint neighborPoints geometryCenter =
     (let (dirX, dirY) =
            (if length neighborPoints > 0
             then (case foldl (addNeighbor currentPoint) (0, 0) neighborPoints of
                     (sumX, sumY) \<Rightarrow> (- sumX, - sumY))
             else (px currentPoint - px geometryCenter, py currentPoint - py geometryCenter));
          len = sqrt (dirX * dirX + dirY * dirY)
      in if len = 0 then \<lparr>px = 0.707, py = - 0.707\<rparr>
         else \<lparr>px = dirX / len, py = dirY / len\<rparr>)"

section \<open>JavaScript values used by Canvas.tsx\<close>

text \<open>
  A JavaScript \<open>Map\<close> keeps its entries in insertion order: \<open>set\<close> on a key that is
  present replaces the value in place, \<open>set\<close> on a new key appends, and \<open>values()\<close>
  lists the values in that order. The model is an association list with distinct keys.
\<close>

fun map_set :: "('k \<times> 'v) list \<Rightarrow> 'k \<Rightarrow> 'v \<Rightarrow> ('k \<times> 'v) list" where
  "map_set [] k v = [(k, v)]"
| "map_set ((k', v') # m) k v =
     (if k' = k then (k, v) # m else (k', v') # map_set m k v)"

definition map_get :: "('k \<times> 'v) list \<Rightarrow> 'k \<Rightarrow> 'v option" where
  "map_get m k = map_of m k"

definition map_has :: "('k \<times> 'v) list \<Rightarrow> 'k \<Rightarrow> bool" where
  "map_has m k = (map_of m k \<noteq> None)"

definition map_delete :: "('k \<times> 'v) list \<Rightarrow> 'k \<Rightarrow> ('k \<times> 'v) list" where
  "map_delete m k = filter (\<lambda>kv. fst kv \<noteq> k) m"

definition map_values :: "('k \<times> 'v) list \<Rightarrow> 'v list" where
  "map_values m = map snd m"

text \<open>
  Truthiness of a value of type \<open>string | null | undefined\<close>: null, undefined and the
  empty string are falsy.
\<close>

definition truthy :: "string option \<Rightarrow> bool" where
  "truthy s = (case s of None \<Rightarrow> False | Some v \<Rightarrow> v \<noteq> [])"

text \<open>\<open>String.prototype.includes\<close>: the second string occurs as a contiguous part.\<close>

fun startsWith :: "string \<Rightarrow> string \<Rightarrow> bool" where
  "startsWith s [] = True"
| "startsWith [] (c # cs) = False"
| "startsWith (d # ds) (c # cs) = (d = c \<and> startsWith ds cs)"

fun str_includes :: "string \<Rightarrow> string \<Rightarrow> bool" where
  "str_includes [] sub = (sub = [])"
| "str_includes (d # ds) sub = (startsWith (d # ds) sub \<or> str_includes ds sub)"

text \<open>
  The remainder operator \<open>%\<close> on numbers truncates the quotient towards zero (the
  result has the sign of the dividend).
\<close>

definition js_rem :: "real \<Rightarrow> real \<Rightarrow> real" where
  "js_rem a b =
     a - b * of_int (if 0 \<le> a / b then \<lfloor>a / b\<rfloor> else \<lceil>a / b\<rceil>)"

definition hypot :: "real \<Rightarrow> real \<Rightarrow> real" where
  "hypot a b = sqrt (a * a + b * b)"

section \<open>State of the Canvas component\<close>

datatype SelType = SelPoint | SelEdge | SelFace | SelLabel

record SelectedElement =
  sel_id :: string
  sel_type :: SelType

record Dimensions =
  width :: real
  height :: real

text \<open>
  What \<open>containerRef.current.getBoundingClientRect()\<close> gives the handlers: the
  container's left and top edge. \<open>containerRef\<close> is \<open>None\<close> while the container is not
  mounted.
\<close>

record DOMRect =
  rect_left :: real
  rect_top :: real

text \<open>
  The hooks of the component: every \<open>useState\<close> cell and every \<open>useRef\<close> cell is a
  field, and so is the \<open>data\<close> property, which the owner replaces with the document that
  \<open>onDataUpdate\<close> hands over (App: \<open>updateActiveProject({ geometryData: newData })\<close>).
  \<open>spoken\<close> logs the labels passed to \<open>onSpeak\<close> (after the fixed prefix of the phrase).
  Events are handled one at a time, each on the state the previous one left.
\<close>

record CanvasState =
  scale :: real
  angleX :: real
  angleY :: real
  panOffset :: Point2D
  isAutoRotating :: bool
  dimensions :: Dimensions
  containerRef :: "DOMRect option"
  selectedElements :: "SelectedElement list"
  isDrawingMode :: bool
  isPanMode :: bool
  isSpacePanning :: bool
  isPanning :: bool
  draggingLabelId :: "string option"
  lastPointerPos :: Point2D
  pointersRef :: "(int \<times> Point2D) list"
  prevPinchDistRef :: "real option"
  currentStroke :: "Point2D list"
  drawingColor :: string
  data :: "GeometryData option"
  spoken :: "string list"

record PointerEvent =
  pointerId :: int
  button :: int
  clientX :: real
  clientY :: real
  altKey :: bool

subsection \<open>Coordinate transformations (screen and world)\<close>

definition toWorld :: "CanvasState \<Rightarrow> real \<Rightarrow> real \<Rightarrow> Point2D" where
  "toWorld st screenX screenY =
     \<lparr>px = (screenX - width (dimensions st) / 2 - px (panOffset st)) / scale st,
      py = (screenY - height (dimensions st) / 2 - py (panOffset st)) / scale st\<rparr>"

definition toScreen :: "CanvasState \<Rightarrow> real \<Rightarrow> real \<Rightarrow> Point2D" where
  "toScreen st worldX worldY =
     \<lparr>px = worldX * scale st + width (dimensions st) / 2 + px (panOffset st),
      py = worldY * scale st + height (dimensions st) / 2 + py (panOffset st)\<rparr>"

subsection \<open>The memoised maps \<open>projectedPoints\<close> and \<open>labelPositions\<close>\<close>

definition projectOne :: "CanvasState \<Rightarrow> Point3D \<Rightarrow> Point2D" where
  "projectOne st p =
     (let pt = projectPoint p (angleX st) (angleY st) (scale st)
                 (width (dimensions st)) (height (dimensions st))
      in \<lparr>px = px pt + px (panOffset st), py = py pt + py (panOffset st)\<rparr>)"

definition projectedPoints :: "CanvasState \<Rightarrow> (string \<times> Point2D) list" where
  "projectedPoints st =
     (case data st of
        None \<Rightarrow> []
      | Some d \<Rightarrow> foldl (\<lambda>m p. map_set m (pid p) (projectOne st p)) [] (points d))"

text \<open>The body of \<open>data.edges.forEach\<close> that collects the neighbours of a point.\<close>

definition pushNeighbor ::
  "(string \<times> Point2D) list \<Rightarrow> string \<Rightarrow> Point2D list \<Rightarrow> Edge \<Rightarrow> Point2D list" where
  "pushNeighbor pp i neighbors e =
     (if efrom e = i then
        (case map_get pp (eto e) of Some n \<Rightarrow> neighbors @ [n] | None \<Rightarrow> neighbors)
      else if eto e = i then
        (case map_get pp (efrom e) of Some n \<Rightarrow> neighbors @ [n] | None \<Rightarrow> neighbors)
      else neighbors)"

text \<open>The body of \<open>data.points.forEach\<close> in \<open>labelPositions\<close>.\<close>

definition placeLabel ::
  "(string \<times> Point2D) list \<Rightarrow> Point2D \<Rightarrow> Edge list \<Rightarrow>
     (string \<times> Point2D) list \<Rightarrow> Point3D \<Rightarrow> (string \<times> Point2D) list" where
  "placeLabel pp projCenter es posMap point =
     (case map_get pp (pid point) of
        None \<Rightarrow> posMap
      | Some pt \<Rightarrow>
          (case labelOffset point of
             Some off \<Rightarrow>
               map_set posMap (pid point) \<lparr>px = px pt + px off, py = py pt + py off\<rparr>
           | None \<Rightarrow>
               (let neighbors = foldl (pushNeighbor pp (pid point)) [] es;
                    direction = getSmartLabelDirection pt neighbors projCenter;
                    distance = 25
                in map_set posMap (pid point)
                     \<lparr>px = px pt + px direction * distance,
                      py = py pt + py direction * distance\<rparr>)))"

definition labelPositions :: "CanvasState \<Rightarrow> (string \<times> Point2D) list" where
  "labelPositions st =
     (case data st of
        None \<Rightarrow> []
      | Some d \<Rightarrow>
          (let pp = projectedPoints st;
               projCenter = get2DCentroid (map_values pp)
           in foldl (placeLabel pp projCenter (edges d)) [] (points d)))"

text \<open>
  Where the renderer puts the text of a point's label:
  \<open>labelPositions.get(point.id) || pt\<close>, and nothing when the point has no projection.
\<close>

definition renderedLabelPos :: "CanvasState \<Rightarrow> Point3D \<Rightarrow> Point2D option" where
  "renderedLabelPos st point =
     (case map_get (projectedPoints st) (pid point) of
        None \<Rightarrow> None
      | Some pt \<Rightarrow>
          (case map_get (labelPositions st) (pid point) of
             Some lp \<Rightarrow> Some lp
           | None \<Rightarrow> Some pt))"

subsection \<open>Hit testing (the three loops of \<open>handlePointerDown\<close>)\<close>

text \<open>
  Loop A, over \<open>data.points\<close>: the first point with a label position and a truthy label
  whose label box (half-width 30, half-height 20) holds \<open>(x, y)\<close>. The handler sets
  \<open>draggingLabelId\<close> to its id and returns.
\<close>

definition labelHit :: "(string \<times> Point2D) list \<Rightarrow> real \<Rightarrow> real \<Rightarrow> Point3D \<Rightarrow> bool" where
  "labelHit lps x y p =
     (case map_get lps (pid p) of
        None \<Rightarrow> False
      | Some lblPos \<Rightarrow>
          truthy (label p) \<and>
          (let w = 30; h = 20 in \<bar>px lblPos - x\<bar> < w \<and> \<bar>py lblPos - y\<bar> < h))"

fun findLabel :: "(string \<times> Point2D) list \<Rightarrow> real \<Rightarrow> real \<Rightarrow> Point3D list \<Rightarrow> string option" where
  "findLabel lps x y [] = None"
| "findLabel lps x y (p # ps) =
     (if labelHit lps x y p then Some (pid p) else findLabel lps x y ps)"

text \<open>Loop B: the first point whose projection is within the hit radius 24 on both axes.\<close>

definition pointHit :: "(string \<times> Point2D) list \<Rightarrow> real \<Rightarrow> real \<Rightarrow> Point3D \<Rightarrow> bool" where
  "pointHit pp x y p =
     (case map_get pp (pid p) of
        None \<Rightarrow> False
      | Some pt \<Rightarrow> (let hitRadius = 24 in \<bar>px pt - x\<bar> < hitRadius \<and> \<bar>py pt - y\<bar> < hitRadius))"

fun findPoint :: "(string \<times> Point2D) list \<Rightarrow> real \<Rightarrow> real \<Rightarrow> Point3D list \<Rightarrow> string option" where
  "findPoint pp x y [] = None"
| "findPoint pp x y (p # ps) =
     (if pointHit pp x y p then Some (pid p) else findPoint pp x y ps)"

text \<open>
  Loop C: the first edge with both ends projected whose segment is closer than 15 to
  \<open>(x, y)\<close>, the foot of the perpendicular clamped to the segment.
\<close>

definition segmentDistance :: "Point2D \<Rightarrow> Point2D \<Rightarrow> real \<Rightarrow> real \<Rightarrow> real" where
  "segmentDistance p1 p2 x y =
     (let A = x - px p1; B = y - py p1;
          C = px p2 - px p1; D = py p2 - py p1;
          dot = A * C + B * D;
          len_sq = C * C + D * D;
          param = (if len_sq \<noteq> 0 then dot / len_sq else - 1);
          (xx, yy) = (if param < 0 then (px p1, py p1)
                      else if param > 1 then (px p2, py p2)
                      else (px p1 + param * C, py p1 + param * D));
          dx = x - xx; dy = y - yy
      in sqrt (dx * dx + dy * dy))"

definition edgeHit :: "(string \<times> Point2D) list \<Rightarrow> real \<Rightarrow> real \<Rightarrow> Edge \<Rightarrow> bool" where
  "edgeHit pp x y e =
     (case map_get pp (efrom e) of
        None \<Rightarrow> False
      | Some p1 \<Rightarrow>
          (case map_get pp (eto e) of
             None \<Rightarrow> False
           | Some p2 \<Rightarrow> segmentDistance p1 p2 x y < 15))"

fun findEdge :: "(string \<times> Point2D) list \<Rightarrow> real \<Rightarrow> real \<Rightarrow> Edge list \<Rightarrow> string option" where
  "findEdge pp x y [] = None"
| "findEdge pp x y (e # es) =
     (if edgeHit pp x y e then Some (eid e) else findEdge pp x y es)"

text \<open>
  The outcome of the three loops. \<open>LabelHit i\<close>: loop A returned at the point \<open>i\<close>.
  \<open>NodeHit i\<close>: \<open>clickedNodeId\<close> ended as the truthy string \<open>i\<close>. \<open>NoHit\<close>: it ended
  falsy. Loop C runs when \<open>clickedNodeId\<close> is falsy after loop B, and leaves it as it was
  when no edge is hit.
\<close>

datatype Hit = LabelHit string | NodeHit string | NoHit

definition hitTest :: "CanvasState \<Rightarrow> real \<Rightarrow> real \<Rightarrow> Hit" where
  "hitTest st x y =
     (let pts = (case data st of None \<Rightarrow> [] | Some d \<Rightarrow> points d);
          es = (case data st of None \<Rightarrow> [] | Some d \<Rightarrow> edges d)
      in case findLabel (labelPositions st) x y pts of
           Some i \<Rightarrow> LabelHit i
         | None \<Rightarrow>
             (let afterB = findPoint (projectedPoints st) x y pts;
                  clickedNodeId =
                    (if \<not> truthy afterB then
                       (case findEdge (projectedPoints st) x y es of
                          Some i \<Rightarrow> Some i
                        | None \<Rightarrow> afterB)
                     else afterB)
              in case clickedNodeId of
                   None \<Rightarrow> NoHit
                 | Some i \<Rightarrow> if i \<noteq> [] then NodeHit i else NoHit))"

subsection \<open>Pointer handlers\<close>

definition isSelected :: "CanvasState \<Rightarrow> string \<Rightarrow> bool" where
  "isSelected st i = list_ex (\<lambda>e. sel_id e = i) (selectedElements st)"

text \<open>
  The selection branch taken when \<open>clickedNodeId\<close> is truthy; the \<open>onSpeak\<close> callback
  is taken to be supplied.
\<close>

definition selectNode :: "CanvasState \<Rightarrow> string \<Rightarrow> CanvasState" where
  "selectNode st i =
     (if isSelected st i then st\<lparr>selectedElements := []\<rparr>
      else
        (let st' = st\<lparr>selectedElements :=
                         [\<lparr>sel_id = i,
                           sel_type = (if str_includes i ''edge'' then SelEdge else SelPoint)\<rparr>]\<rparr>;
             pt = (case data st of None \<Rightarrow> None | Some d \<Rightarrow> find (\<lambda>p. pid p = i) (points d))
         in case pt of
              None \<Rightarrow> st'
            | Some p \<Rightarrow>
                (case label p of
                   None \<Rightarrow> st'
                 | Some l \<Rightarrow> if l \<noteq> [] then st'\<lparr>spoken := spoken st' @ [l]\<rparr> else st')))"

text \<open>The end of \<open>handlePointerDown\<close>: pinch seed, stroke seed, or pan.\<close>

definition toolDispatch :: "PointerEvent \<Rightarrow> real \<Rightarrow> real \<Rightarrow> CanvasState \<Rightarrow> CanvasState" where
  "toolDispatch e x y st =
     (let isPanAction = (isSpacePanning st \<or> altKey e \<or> length (pointersRef st) = 2) in
      if length (pointersRef st) = 2 then
        (case map_values (pointersRef st) of
           [p0, p1] \<Rightarrow>
             st\<lparr>isPanning := True,
                prevPinchDistRef := Some (hypot (px p0 - px p1) (py p0 - py p1))\<rparr>
         | _ \<Rightarrow> st)
      else if isDrawingMode st \<and> \<not> isPanAction then
        st\<lparr>currentStroke := [toWorld st x y]\<rparr>
      else if isPanAction then st\<lparr>isPanning := True\<rparr>
      else st)"

definition handlePointerDown :: "PointerEvent \<Rightarrow> CanvasState \<Rightarrow> CanvasState" where
  "handlePointerDown e st0 =
     (let pos = \<lparr>px = clientX e, py = clientY e\<rparr>;
          st = st0\<lparr>pointersRef := map_set (pointersRef st0) (pointerId e) pos\<rparr>
      in if button e = 1 \<or> (button e = 0 \<and> isPanMode st) then
           st\<lparr>isPanning := True, lastPointerPos := pos\<rparr>
         else
           (case containerRef st of
              None \<Rightarrow> st
            | Some rect \<Rightarrow>
                (let x = clientX e - rect_left rect;
                     y = clientY e - rect_top rect;
                     st1 = st\<lparr>lastPointerPos := pos\<rparr>
                 in if \<not> isDrawingMode st1 \<and> \<not> isPanMode st1 \<and> \<not> isSpacePanning st1
                       \<and> length (pointersRef st1) = 1
                    then (case hitTest st1 x y of
                            LabelHit i \<Rightarrow> st1\<lparr>draggingLabelId := Some i\<rparr>
                          | NodeHit i \<Rightarrow> selectNode st1 i
                          | NoHit \<Rightarrow> toolDispatch e x y (st1\<lparr>selectedElements := []\<rparr>))
                    else toolDispatch e x y st1)))"

text \<open>
  The label-drag branch of \<open>handlePointerMove\<close>, with \<open>onDataUpdate\<close> applied. (The
  effect that resets the view once the owner hands back a document with a new \<open>points\<close>
  array runs after the handler and is not part of it.)
\<close>

definition dragLabel :: "CanvasState \<Rightarrow> string \<Rightarrow> GeometryData \<Rightarrow> real \<Rightarrow> real \<Rightarrow> CanvasState" where
  "dragLabel st i d dx dy =
     (case (find (\<lambda>p. pid p = i) (points d), map_get (projectedPoints st) i) of
        (Some point, Some ptProj) \<Rightarrow>
          (let currentLabelPos =
                 (case map_get (labelPositions st) i of Some lp \<Rightarrow> lp | None \<Rightarrow> ptProj);
               newX = px currentLabelPos + dx;
               newY = py currentLabelPos + dy;
               offsetX = newX - px ptProj;
               offsetY = newY - py ptProj;
               newPoints =
                 map (\<lambda>p. if pid p = i
                           then p\<lparr>labelOffset := Some \<lparr>px = offsetX, py = offsetY\<rparr>\<rparr>
                           else p) (points d)
           in st\<lparr>data := Some (d\<lparr>points := newPoints\<rparr>)\<rparr>)
      | _ \<Rightarrow> st)"

text \<open>
  The two-pointer branch of \<open>handlePointerMove\<close>; \<open>dx\<close> and \<open>dy\<close> are the event's
  distance from \<open>lastPointerPos\<close>.
\<close>

definition pinchMove :: "CanvasState \<Rightarrow> real \<Rightarrow> real \<Rightarrow> CanvasState" where
  "pinchMove st1 dx dy =
     (case map_values (pointersRef st1) of
        [p0, p1] \<Rightarrow>
          (let dist = hypot (px p0 - px p1) (py p0 - py p1);
               st2 = (case prevPinchDistRef st1 of
                        Some prev \<Rightarrow>
                          (let delta = dist - prev;
                               newScale = min (max 5 (scale st1 * (1 + delta * 0.01))) 200
                           in st1\<lparr>scale := newScale\<rparr>)
                      | None \<Rightarrow> st1)
           in st2\<lparr>prevPinchDistRef := Some dist,
                  panOffset := \<lparr>px = px (panOffset st2) + dx * 0.5,
                                py = py (panOffset st2) + dy * 0.5\<rparr>\<rparr>)
      | _ \<Rightarrow> st1)"

definition handlePointerMove :: "PointerEvent \<Rightarrow> CanvasState \<Rightarrow> CanvasState" where
  "handlePointerMove e st0 =
     (let pos = \<lparr>px = clientX e, py = clientY e\<rparr>;
          st = (if map_has (pointersRef st0) (pointerId e)
                then st0\<lparr>pointersRef := map_set (pointersRef st0) (pointerId e) pos\<rparr>
                else st0)
      in case containerRef st of
           None \<Rightarrow> st
         | Some rect \<Rightarrow>
             (let dx = clientX e - px (lastPointerPos st);
                  dy = clientY e - py (lastPointerPos st);
                  st1 = st\<lparr>lastPointerPos := pos\<rparr>
              in if length (pointersRef st1) = 2 then pinchMove st1 dx dy
                 else if truthy (draggingLabelId st1) \<and> data st1 \<noteq> None then
                   (case (draggingLabelId st1, data st1) of
                      (Some i, Some d) \<Rightarrow> dragLabel st1 i d dx dy
                    | _ \<Rightarrow> st1)
                 else if isDrawingMode st1 \<and> \<not> isPanning st1 \<and> length (currentStroke st1) > 0 then
                   (let mouseX = clientX e - rect_left rect;
                        mouseY = clientY e - rect_top rect;
                        worldPos = toWorld st1 mouseX mouseY
                    in st1\<lparr>currentStroke := currentStroke st1 @ [worldPos]\<rparr>)
                 else if isPanning st1 then
                   st1\<lparr>panOffset := \<lparr>px = px (panOffset st1) + dx,
                                     py = py (panOffset st1) + dy\<rparr>\<rparr>
                 else st1))"

text \<open>
  \<open>handlePointerUp\<close>; \<open>now\<close> is what \<open>Date.now()\<close> returns. \<open>finalizeStroke\<close> is the
  body of its last \<open>if\<close>: the stroke goes to \<open>onDataUpdate\<close> when there is a document,
  and \<open>currentStroke\<close> is emptied.
\<close>

definition finalizeStroke :: "nat \<Rightarrow> CanvasState \<Rightarrow> CanvasState" where
  "finalizeStroke now st4 =
     (let st5 =
            (case data st4 of
               Some d \<Rightarrow>
                 (let newStroke = \<lparr>sid = now, spoints = currentStroke st4,
                                   scolor = drawingColor st4, swidth = 3\<rparr>
                  in st4\<lparr>data := Some (d\<lparr>drawings :=
                        Some ((case drawings d of None \<Rightarrow> [] | Some ds \<Rightarrow> ds)
                              @ [newStroke])\<rparr>)\<rparr>)
             | None \<Rightarrow> st4)
      in st5\<lparr>currentStroke := []\<rparr>)"

definition handlePointerUp :: "nat \<Rightarrow> PointerEvent \<Rightarrow> CanvasState \<Rightarrow> CanvasState" where
  "handlePointerUp now e st0 =
     (let st1 = st0\<lparr>pointersRef := map_delete (pointersRef st0) (pointerId e)\<rparr>;
          st2 = (if length (pointersRef st1) < 2 then st1\<lparr>prevPinchDistRef := None\<rparr> else st1);
          st3 = (if length (pointersRef st2) = 0 then st2\<lparr>isPanning := False\<rparr> else st2);
          st4 = st3\<lparr>draggingLabelId := None\<rparr>
      in if isDrawingMode st4 \<and> length (currentStroke st4) > 0
         then finalizeStroke now st4
         else st4)"

subsection \<open>Wheel, toolbar buttons, keyboard and the auto-rotation timer\<close>

definition onWheel :: "real \<Rightarrow> CanvasState \<Rightarrow> CanvasState" where
  "onWheel deltaY st =
     (if \<not> isDrawingMode st
      then st\<lparr>scale := min (max 5 (scale st * (1 - deltaY * 0.002))) 200\<rparr>
      else st)"

definition zoomIn :: "CanvasState \<Rightarrow> CanvasState" where
  "zoomIn st = st\<lparr>scale := scale st * 1.2\<rparr>"

definition zoomOut :: "CanvasState \<Rightarrow> CanvasState" where
  "zoomOut st = st\<lparr>scale := scale st / 1.2\<rparr>"

definition toggleAutoRotate :: "CanvasState \<Rightarrow> CanvasState" where
  "toggleAutoRotate st = st\<lparr>isAutoRotating := \<not> isAutoRotating st\<rparr>"

definition togglePanMode :: "CanvasState \<Rightarrow> CanvasState" where
  "togglePanMode st =
     (let newState = \<not> isPanMode st;
          st' = st\<lparr>isPanMode := newState\<rparr>
      in if newState then st'\<lparr>isDrawingMode := False\<rparr> else st')"

definition toggleDrawingMode :: "CanvasState \<Rightarrow> CanvasState" where
  "toggleDrawingMode st =
     (let newState = \<not> isDrawingMode st;
          st' = st\<lparr>isDrawingMode := newState\<rparr>
      in if newState then st'\<lparr>isPanMode := False\<rparr> else st')"

text \<open>
  The window's key listeners; \<open>code\<close> and \<open>repeat\<close> are the fields of the keyboard
  event.
\<close>

definition handleKeyDown :: "string \<Rightarrow> bool \<Rightarrow> CanvasState \<Rightarrow> CanvasState" where
  "handleKeyDown code repeat st =
     (if code = ''Space'' \<and> \<not> repeat \<and> \<not> isDrawingMode st
      then st\<lparr>isSpacePanning := True\<rparr> else st)"

definition handleKeyUp :: "string \<Rightarrow> CanvasState \<Rightarrow> CanvasState" where
  "handleKeyUp code st =
     (if code = ''Space'' then st\<lparr>isSpacePanning := False, isPanning := False\<rparr> else st)"

text \<open>
  The auto-rotation effect installs its interval only while its condition holds, and
  the effect's cleanup clears the interval as soon as one of the values it depends on
  changes. A tick of the timer is therefore an event that changes the state exactly when
  the condition holds in the current state. How much time a tick takes (50 ms) is not
  modelled.
\<close>

definition autoRotationActive :: "CanvasState \<Rightarrow> bool" where
  "autoRotationActive st =
     (isAutoRotating st \<and> (case data st of None \<Rightarrow> False | Some d \<Rightarrow> gtype d = ThreeD)
      \<and> \<not> isDrawingMode st \<and> \<not> isPanning st \<and> \<not> truthy (draggingLabelId st))"

definition autoRotateTick :: "CanvasState \<Rightarrow> CanvasState" where
  "autoRotateTick st =
     (if autoRotationActive st then st\<lparr>angleY := js_rem (angleY st + 1) 360\<rparr> else st)"

text \<open>The values of the \<open>useState\<close> and \<open>useRef\<close> calls, for a mounted container.\<close>

definition initialState :: "GeometryData option \<Rightarrow> Dimensions \<Rightarrow> DOMRect \<Rightarrow> CanvasState" where
  "initialState d dims rect =
     \<lparr>scale = 25, angleX = 15, angleY = 30, panOffset = \<lparr>px = 0, py = 0\<rparr>,
      isAutoRotating = False, dimensions = dims, containerRef = Some rect,
      selectedElements = [], isDrawingMode = False, isPanMode = False,
      isSpacePanning = False, isPanning = False, draggingLabelId = None,
      lastPointerPos = \<lparr>px = 0, py = 0\<rparr>, pointersRef = [], prevPinchDistRef = None,
      currentStroke = [], drawingColor = ''#ef4444'', data = d, spoken = []\<rparr>"

text \<open>
  The events of the canvas that the properties below speak about, and the state after a
  sequence of them. (The reset and centre buttons, the colour buttons and the eraser are
  not among them.)
\<close>

datatype Event =
    PointerDown PointerEvent
  | PointerMove PointerEvent
  | PointerUp nat PointerEvent
  | Wheel real
  | ZoomInButton
  | ZoomOutButton
  | AutoRotateButton
  | PanModeButton
  | DrawModeButton
  | KeyDown string bool
  | KeyUp string
  | TimerTick

fun step :: "CanvasState \<Rightarrow> Event \<Rightarrow> CanvasState" where
  "step st (PointerDown e) = handlePointerDown e st"
| "step st (PointerMove e) = handlePointerMove e st"
| "step st (PointerUp now e) = handlePointerUp now e st"
| "step st (Wheel deltaY) = onWheel deltaY st"
| "step st ZoomInButton = zoomIn st"
| "step st ZoomOutButton = zoomOut st"
| "step st AutoRotateButton = toggleAutoRotate st"
| "step st PanModeButton = togglePanMode st"
| "step st DrawModeButton = toggleDrawingMode st"
| "step st (KeyDown code repeat) = handleKeyDown code repeat st"
| "step st (KeyUp code) = handleKeyUp code st"
| "step st TimerTick = autoRotateTick st"

definition run :: "CanvasState \<Rightarrow> Event list \<Rightarrow> CanvasState" where
  "run st evs = foldl step st evs"

section \<open>Definitions that follow the specification's words\<close>

text \<open>
  Rotation of a model-space vector about the vertical (Y) axis and about the horizontal
  (X) axis by an angle in radians, written as the specification describes the
  projection: the Y rotation leaves the vertical coordinate alone and turns the other
  two; the X rotation leaves the horizontal coordinate alone.
\<close>

definition spec_rotateY :: "real \<Rightarrow> real \<times> real \<times> real \<Rightarrow> real \<times> real \<times> real" where
  "spec_rotateY a v =
     (case v of (x, y, z) \<Rightarrow> (x * cos a - z * sin a, y, x * sin a + z * cos a))"

definition spec_rotateX :: "real \<Rightarrow> real \<times> real \<times> real \<Rightarrow> real \<times> real \<times> real" where
  "spec_rotateX a v =
     (case v of (x, y, z) \<Rightarrow> (x, y * cos a - z * sin a, y * sin a + z * cos a))"

definition spec_radians :: "real \<Rightarrow> real" where
  "spec_radians deg = deg * pi / 180"

text \<open>
  The projection in the specification's order: rotate about Y by \<open>angleY\<close>, then about
  X by \<open>angleX\<close>, drop the depth, scale, move to the middle of the viewport; the
  model's vertical coordinate is negated, since screen coordinates grow downwards.
\<close>

definition spec_projectPoint ::
  "Point3D \<Rightarrow> real \<Rightarrow> real \<Rightarrow> real \<Rightarrow> real \<Rightarrow> real \<Rightarrow> Point2D" where
  "spec_projectPoint p ax ay s w h =
     (case spec_rotateX (spec_radians ax)
             (spec_rotateY (spec_radians ay) (p3x p, p3y p, p3z p)) of
        (x, y, depth) \<Rightarrow> \<lparr>px = x * s + w / 2, py = - (y * s) + h / 2\<rparr>)"

text \<open>
  Plane vectors for the label direction. The unit vector of the zero vector does not
  exist; \<open>spec_unit\<close> gives the zero vector there, so that a neighbour lying exactly on
  the point adds nothing to the sum of unit vectors.
\<close>

type_synonym vec2 = "real \<times> real"

definition spec_norm :: "vec2 \<Rightarrow> real" where
  "spec_norm v = sqrt (fst v * fst v + snd v * snd v)"

definition spec_unit :: "vec2 \<Rightarrow> vec2" where
  "spec_unit v =
     (if spec_norm v = 0 then (0, 0) else (fst v / spec_norm v, snd v / spec_norm v))"

definition spec_fromTo :: "Point2D \<Rightarrow> Point2D \<Rightarrow> vec2" where
  "spec_fromTo a b = (px b - px a, py b - py a)"

text \<open>
  The label direction in the specification's words: with neighbours, the negated sum of
  the unit vectors from the point to each neighbour; without, the vector from the
  centroid to the point; normalised, and the fixed diagonal when that vector has length
  zero.
\<close>

definition spec_labelDirection :: "Point2D \<Rightarrow> Point2D list \<Rightarrow> Point2D \<Rightarrow> Point2D" where
  "spec_labelDirection p nbs c =
     (let units = map (\<lambda>nb. spec_unit (spec_fromTo p nb)) nbs;
          v = (if nbs \<noteq> []
               then (- sum_list (map fst units), - sum_list (map snd units))
               else spec_fromTo c p)
      in if spec_norm v = 0 then \<lparr>px = 0.707, py = - 0.707\<rparr>
         else \<lparr>px = fst (spec_unit v), py = snd (spec_unit v)\<rparr>)"

section \<open>Example inputs\<close>

text \<open>
  A flat triangle A(0,0,0), B(3,0,0), C(0,4,0) with the edges A-B and A-C. Point A
  carries the manual label offset (10, -5).
\<close>

definition pointA :: Point3D where
  "pointA = (mkPoint3D ''A'' 0 0 0)
     \<lparr>label := Some ''A'', labelOffset := Some \<lparr>px = 10, py = - 5\<rparr>\<rparr>"

definition pointB :: Point3D where
  "pointB = (mkPoint3D ''B'' 3 0 0)
     \<lparr>label := Some ''B'', labelOffset := Some \<lparr>px = 0, py = 30\<rparr>\<rparr>"

definition pointC :: Point3D where
  "pointC = (mkPoint3D ''C'' 0 4 0)\<lparr>labelOffset := Some \<lparr>px = 0, py = - 30\<rparr>\<rparr>"

definition mkEdge :: "string \<Rightarrow> string \<Rightarrow> string \<Rightarrow> Edge" where
  "mkEdge i a b =
     \<lparr>eid = i, efrom = a, eto = b, ecolor = None, thickness = None, elabel = None,
      marker = None\<rparr>"

definition triangleDoc :: GeometryData where
  "triangleDoc =
     \<lparr>points = [pointA, pointB, pointC],
      edges = [mkEdge ''edge_AB'' ''A'' ''B'', mkEdge ''edge_AC'' ''A'' ''C''],
      drawings = None, gtype = TwoD\<rparr>"

text \<open>
  The canvas showing the triangle in an 800 by 600 container at the origin of the page,
  with the view of a 2D document (angles 0, scale 25, no pan).
\<close>

definition triangleView :: CanvasState where
  "triangleView =
     (initialState (Some triangleDoc) \<lparr>width = 800, height = 600\<rparr>
        \<lparr>rect_left = 0, rect_top = 0\<rparr>)
     \<lparr>angleX := 0, angleY := 0\<rparr>"

text \<open>
  The same canvas on a 3D document with auto-rotation switched on, at the last angle
  before the wrap.
\<close>

definition rotatingView :: CanvasState where
  "rotatingView =
     (initialState (Some (triangleDoc\<lparr>gtype := ThreeD\<rparr>)) \<lparr>width = 800, height = 600\<rparr>
        \<lparr>rect_left = 0, rect_top = 0\<rparr>)
     \<lparr>isAutoRotating := True, angleY := 359\<rparr>"

text \<open>A primary-button pointer event of pointer \<open>i\<close> at the client position \<open>(x, y)\<close>.\<close>

definition pointerAt :: "int \<Rightarrow> real \<Rightarrow> real \<Rightarrow> PointerEvent" where
  "pointerAt i x y = \<lparr>pointerId = i, button = 0, clientX = x, clientY = y, altKey = False\<rparr>"

section \<open>Notions used to state the drawing scenario\<close>

text \<open>
  The world position that \<open>handlePointerDown\<close> and \<open>handlePointerMove\<close> compute for a
  pointer event: the client position relative to the container, through \<open>toWorld\<close>.
\<close>

definition worldOf :: "CanvasState \<Rightarrow> DOMRect \<Rightarrow> PointerEvent \<Rightarrow> Point2D" where
  "worldOf st rect e = toWorld st (clientX e - rect_left rect) (clientY e - rect_top rect)"

text \<open>The strokes of the document: \<open>data.drawings || []\<close>, and none without a document.\<close>

definition finalizedStrokes :: "CanvasState \<Rightarrow> FreehandStroke list" where
  "finalizedStrokes st =
     (case data st of
        None \<Rightarrow> []
      | Some d \<Rightarrow> (case drawings d of None \<Rightarrow> [] | Some ds \<Rightarrow> ds))"

text \<open>
  The invariant of a stroke being drawn, relative to the state \<open>st\<close> in which the
  pointer went down: draw mode, one pointer, no pan, no label drag, a stroke that is not
  empty, and the view, document and colour of \<open>st\<close>.
\<close>

definition strokeInProgress :: "CanvasState \<Rightarrow> DOMRect \<Rightarrow> CanvasState \<Rightarrow> bool" where
  "strokeInProgress st rect s =
     (isDrawingMode s \<and> \<not> isPanning s \<and> currentStroke s \<noteq> [] \<and> length (pointersRef s) = 1
      \<and> \<not> truthy (draggingLabelId s) \<and> containerRef s = Some rect
      \<and> scale s = scale st \<and> panOffset s = panOffset st \<and> dimensions s = dimensions st
      \<and> data s = data st \<and> drawingColor s = drawingColor st)"

text \<open>The triangle canvas after a press of the draw button.\<close>

definition drawView :: CanvasState where
  "drawView = toggleDrawingMode triangleView"

section \<open>Notions used to state the pinch scenario\<close>

definition midpoint2 :: "Point2D \<Rightarrow> Point2D \<Rightarrow> Point2D" where
  "midpoint2 a b = \<lparr>px = (px a + px b) / 2, py = (py a + py b) / 2\<rparr>"

text \<open>
  Two pointers put down on the triangle canvas, 100 apart, away from every label, point
  and edge: with the default tool (the second pointer-down records the distance), and
  with the pan tool switched on (\<open>handlePointerDown\<close> returns before it records one).
\<close>

definition pinchSeeded :: CanvasState where
  "pinchSeeded =
     run triangleView [PointerDown (pointerAt 1 100 100), PointerDown (pointerAt 2 200 100)]"

definition pinchUnseeded :: CanvasState where
  "pinchUnseeded =
     run triangleView
       [PanModeButton, PointerDown (pointerAt 1 100 100), PointerDown (pointerAt 2 200 100)]"

section \<open>Projection and centroids\<close>

lemma spec_rotateY_axis:
  "spec_rotateY a (x, y, z) = (x', y', z') \<Longrightarrow> y' = y \<and> x'\<^sup>2 + z'\<^sup>2 = x\<^sup>2 + z\<^sup>2"
proof -
  assume h: "spec_rotateY a (x, y, z) = (x', y', z')"
  have c: "cos a * cos a = 1 - sin a * sin a"
    using sin_cos_squared_add [of a] by (simp add: power2_eq_square)
  have "(x * cos a - z * sin a)\<^sup>2 + (x * sin a + z * cos a)\<^sup>2 = x\<^sup>2 + z\<^sup>2"
    by (simp add: power2_eq_square algebra_simps c)
  with h show ?thesis by (auto simp: spec_rotateY_def)
qed

lemma spec_rotateX_axis:
  "spec_rotateX a (x, y, z) = (x', y', z') \<Longrightarrow> x' = x \<and> y'\<^sup>2 + z'\<^sup>2 = y\<^sup>2 + z\<^sup>2"
proof -
  assume h: "spec_rotateX a (x, y, z) = (x', y', z')"
  have c: "cos a * cos a = 1 - sin a * sin a"
    using sin_cos_squared_add [of a] by (simp add: power2_eq_square)
  have "(y * cos a - z * sin a)\<^sup>2 + (y * sin a + z * cos a)\<^sup>2 = y\<^sup>2 + z\<^sup>2"
    by (simp add: power2_eq_square algebra_simps c)
  with h show ?thesis by (auto simp: spec_rotateX_def)
qed

lemma spec_rotateY_add: "spec_rotateY a (spec_rotateY b v) = spec_rotateY (a + b) v"
  by (cases v) (simp add: spec_rotateY_def cos_add sin_add algebra_simps)

lemma spec_rotateX_add: "spec_rotateX a (spec_rotateX b v) = spec_rotateX (a + b) v"
  by (cases v) (simp add: spec_rotateX_def cos_add sin_add algebra_simps)

text \<open>
  C4. \<open>projectPoint\<close> is the projection of the specification: the point is rotated about
  the vertical axis by \<open>angleY\<close> first and about the horizontal axis by \<open>angleX\<close>
  second, the depth is dropped without any perspective division, the rest is scaled and
  moved by half the viewport's width and height, and the vertical coordinate is negated.
  The function is a total function of its six arguments: it has no failing branch.
\<close>

theorem projectPoint_rotates_Y_then_X:
  "projectPoint p ax ay s w h = spec_projectPoint p ax ay s w h"
  by (simp add: projectPoint_def spec_projectPoint_def spec_rotateX_def spec_rotateY_def
      spec_radians_def Let_def)

lemma foldl_add3:
  "foldl add3 (a, b, c) pts =
     (a + sum_list (map p3x pts), b + sum_list (map p3y pts), c + sum_list (map p3z pts))"
  by (induction pts arbitrary: a b c) (simp_all add: add3_def add.assoc)

text \<open>
  C10. For every list of points, \<open>getCenterPoint\<close> and \<open>get3DCentroid\<close> return the same
  point but for the id (\<open>center\<close> against \<open>temp_center\<close>): each coordinate is the
  arithmetic mean of that coordinate over the list, and the origin for the empty list.
\<close>

theorem getCenterPoint_get3DCentroid_agree:
  "getCenterPoint pts = (get3DCentroid pts)\<lparr>pid := ''center''\<rparr>
   \<and> pid (get3DCentroid pts) = ''temp_center''
   \<and> p3x (get3DCentroid pts) = (if pts = [] then 0 else sum_list (map p3x pts) / real (length pts))
   \<and> p3y (get3DCentroid pts) = (if pts = [] then 0 else sum_list (map p3y pts) / real (length pts))
   \<and> p3z (get3DCentroid pts) = (if pts = [] then 0 else sum_list (map p3z pts) / real (length pts))"
  by (simp add: getCenterPoint_def get3DCentroid_def mkPoint3D_def foldl_add3 Let_def)

section \<open>Smart label direction\<close>

lemma addNeighbor_unit:
  "addNeighbor p (sx, sy) nb =
     (sx + fst (spec_unit (spec_fromTo p nb)), sy + snd (spec_unit (spec_fromTo p nb)))"
proof -
  have pos: "(0 < sqrt r) = (sqrt r \<noteq> 0)" if "0 \<le> r" for r :: real
    using that by (simp add: less_le)
  have nn: "0 \<le> (px nb - px p) * (px nb - px p) + (py nb - py p) * (py nb - py p)"
    by simp
  show ?thesis
    by (simp add: addNeighbor_def Let_def spec_unit_def spec_norm_def spec_fromTo_def
        pos [OF nn] del: real_sqrt_gt_0_iff real_sqrt_eq_0_iff)
qed

lemma foldl_addNeighbor:
  "foldl (addNeighbor p) (sx, sy) nbs =
     (sx + sum_list (map (\<lambda>nb. fst (spec_unit (spec_fromTo p nb))) nbs),
      sy + sum_list (map (\<lambda>nb. snd (spec_unit (spec_fromTo p nb))) nbs))"
  by (induction nbs arbitrary: sx sy) (simp_all add: addNeighbor_unit add.assoc)

text \<open>
  C6. \<open>getSmartLabelDirection\<close> returns the direction of the specification: for a point
  with neighbours the negated sum of the unit vectors towards the neighbours,
  normalised; for a point without neighbours the unit vector from the 2D centroid to the
  point; and the fixed diagonal (0.707, -0.707) when the vector to normalise has length
  zero.
\<close>

theorem getSmartLabelDirection_spec:
  "getSmartLabelDirection p nbs c = spec_labelDirection p nbs c"
  by (simp add: getSmartLabelDirection_def spec_labelDirection_def foldl_addNeighbor
      spec_unit_def spec_norm_def spec_fromTo_def Let_def comp_def)

section \<open>World and screen coordinates\<close>

text \<open>
  C3. For every view state with a non-zero scale and every 2D point \<open>p\<close>, mapping \<open>p\<close>
  to the screen and back to the world gives \<open>p\<close>, and mapping it to the world and back
  to the screen gives \<open>p\<close>. In exact arithmetic the round trips are exact.
\<close>

theorem toWorld_toScreen_roundtrip:
  "scale st \<noteq> 0 \<Longrightarrow>
     toWorld st (px (toScreen st (px p) (py p))) (py (toScreen st (px p) (py p))) = p
   \<and> toScreen st (px (toWorld st (px p) (py p))) (py (toWorld st (px p) (py p))) = p"
  by (simp add: toWorld_def toScreen_def)

theorem toWorld_toScreen_roundtrip_witness:
  "scale triangleView \<noteq> 0
   \<and> toWorld triangleView (px (toScreen triangleView 3 4)) (py (toScreen triangleView 3 4))
       = \<lparr>px = 3, py = 4\<rparr>
   \<and> toScreen triangleView (px (toWorld triangleView 3 4)) (py (toWorld triangleView 3 4))
       = \<lparr>px = 3, py = 4\<rparr>
   \<and> toScreen triangleView 3 4 = \<lparr>px = 475, py = 400\<rparr>"
proof -
  have s: "scale triangleView \<noteq> 0"
    by (simp add: triangleView_def initialState_def)
  have t: "toScreen triangleView 3 4 = \<lparr>px = 475, py = 400\<rparr>"
    by (simp add: toScreen_def triangleView_def initialState_def)
  from toWorld_toScreen_roundtrip [OF s, of "\<lparr>px = 3, py = 4\<rparr>"] s t
  show ?thesis by simp
qed

section \<open>Scale limits\<close>

lemma onWheel_scale_range:
  "\<not> isDrawingMode st \<Longrightarrow> 5 \<le> scale (onWheel d st) \<and> scale (onWheel d st) \<le> 200"
  by (simp add: onWheel_def)

lemma onWheel_drawing: "isDrawingMode st \<Longrightarrow> onWheel d st = st"
  by (simp add: onWheel_def)

lemma pinchMove_scale_range:
  "5 \<le> scale st \<Longrightarrow> scale st \<le> 200 \<Longrightarrow>
     5 \<le> scale (pinchMove st dx dy) \<and> scale (pinchMove st dx dy) \<le> 200"
  by (simp add: pinchMove_def Let_def split: list.split option.split)

text \<open>
  C1. The wheel and the pinch clamp the scale to [5, 200] (the two lemmas above); the
  zoom buttons multiply and divide by 1.2 with no clamp. From the initial scale 25 one
  wheel event brings the scale to the upper limit 200 and a press of zoom-in then makes
  it 240; at the lower limit 5 a press of zoom-out makes it less than 5; and twelve
  presses of zoom-in alone take the scale from 25 beyond 200.
\<close>

theorem zoom_buttons_leave_scale_range:
  "scale (run (initialState d dims rect) [Wheel (- 4000)]) = 200
   \<and> scale (run (initialState d dims rect) [Wheel (- 4000), ZoomInButton]) = 240
   \<and> scale (run (initialState d dims rect) [Wheel 4000]) = 5
   \<and> scale (run (initialState d dims rect) [Wheel 4000, ZoomOutButton]) < 5
   \<and> scale (run (initialState d dims rect)
        [ZoomInButton, ZoomInButton, ZoomInButton, ZoomInButton, ZoomInButton, ZoomInButton,
         ZoomInButton, ZoomInButton, ZoomInButton, ZoomInButton, ZoomInButton, ZoomInButton])
       > 200"
  by (simp add: run_def initialState_def onWheel_def zoomIn_def zoomOut_def)

section \<open>Auto-rotation\<close>

lemma js_rem_nonneg:
  assumes "0 \<le> a"
  shows "0 \<le> js_rem a 360 \<and> js_rem a 360 < 360"
proof -
  have q: "0 \<le> a / 360" using assms by simp
  have l: "of_int \<lfloor>a / 360\<rfloor> * 360 \<le> a"
    using floor_divide_lower [of 360 a] by simp
  have u: "a < (of_int \<lfloor>a / 360\<rfloor> + 1) * 360"
    using floor_divide_upper [of 360 a] by simp
  show ?thesis using q l u by (simp add: js_rem_def algebra_simps)
qed

lemma js_rem_small:
  assumes "0 \<le> a" "a < 360"
  shows "js_rem a 360 = a"
proof -
  have "\<lfloor>a / 360\<rfloor> = 0" using assms by (simp add: floor_eq_iff)
  then show ?thesis using assms by (simp add: js_rem_def)
qed

lemma js_rem_360: "js_rem 360 360 = 0"
  by (simp add: js_rem_def)

lemma pinchMove_angleY: "angleY (pinchMove st dx dy) = angleY st"
  by (simp add: pinchMove_def Let_def split: list.split option.split)

lemma dragLabel_angleY: "angleY (dragLabel st i d dx dy) = angleY st"
  by (simp add: dragLabel_def Let_def split: option.split)

lemma selectNode_angleY: "angleY (selectNode st i) = angleY st"
  by (simp add: selectNode_def Let_def split: option.split)

lemma toolDispatch_angleY: "angleY (toolDispatch e x y st) = angleY st"
  by (simp add: toolDispatch_def Let_def split: list.split)

lemma finalizeStroke_angleY: "angleY (finalizeStroke now st) = angleY st"
  by (simp add: finalizeStroke_def Let_def split: option.split)

lemma handlePointerMove_angleY: "angleY (handlePointerMove e st) = angleY st"
  by (simp add: handlePointerMove_def Let_def pinchMove_angleY dragLabel_angleY
      split: option.split)

lemma handlePointerDown_angleY: "angleY (handlePointerDown e st) = angleY st"
  by (simp add: handlePointerDown_def Let_def selectNode_angleY toolDispatch_angleY
      split: option.split Hit.split)

lemma handlePointerUp_angleY: "angleY (handlePointerUp now e st) = angleY st"
  by (simp add: handlePointerUp_def Let_def finalizeStroke_angleY)

lemma step_angleY_range:
  assumes "0 \<le> angleY st" "angleY st < 360"
  shows "0 \<le> angleY (step st ev) \<and> angleY (step st ev) < 360"
proof (cases ev)
  case TimerTick
  then show ?thesis
    using assms js_rem_nonneg [of "angleY st + 1"] by (simp add: autoRotateTick_def)
qed (use assms in \<open>simp_all add: handlePointerDown_angleY handlePointerMove_angleY
      handlePointerUp_angleY onWheel_def zoomIn_def zoomOut_def toggleAutoRotate_def
      togglePanMode_def toggleDrawingMode_def handleKeyDown_def handleKeyUp_def Let_def\<close>)

lemma run_angleY_range:
  "0 \<le> angleY st \<Longrightarrow> angleY st < 360 \<Longrightarrow>
     0 \<le> angleY (run st evs) \<and> angleY (run st evs) < 360"
proof (induction evs arbitrary: st)
  case Nil
  then show ?case by (simp add: run_def)
next
  case (Cons ev evs)
  have "0 \<le> angleY (run (step st ev) evs) \<and> angleY (run (step st ev) evs) < 360"
    using Cons.IH [of "step st ev"] step_angleY_range [OF Cons.prems] by simp
  then show ?case by (simp add: run_def)
qed

text \<open>
  C9. While the auto-rotation condition holds (auto-rotation on, a 3D document, no draw
  mode, no pan, no label drag), a tick of the timer adds the fixed step 1 to the
  vertical rotation angle and takes the remainder by 360: below 359 the angle grows by
  1, and 359 is followed by 0. While draw mode is on, a pan is in progress or a label is
  being dragged, a tick changes nothing. An angle in [0, 360) stays in [0, 360) under
  every sequence of the events of \<open>step\<close>, so the angle never grows without bound.
\<close>

theorem autoRotateTick_steps_and_wraps:
  "(autoRotationActive st \<longrightarrow>
      angleY (autoRotateTick st) = js_rem (angleY st + 1) 360
      \<and> (0 \<le> angleY st \<and> angleY st < 359 \<longrightarrow> angleY (autoRotateTick st) = angleY st + 1)
      \<and> (angleY st = 359 \<longrightarrow> angleY (autoRotateTick st) = 0))
   \<and> (isDrawingMode st \<or> isPanning st \<or> truthy (draggingLabelId st) \<longrightarrow>
        autoRotateTick st = st)
   \<and> (0 \<le> angleY st \<and> angleY st < 360 \<longrightarrow>
        0 \<le> angleY (run st evs) \<and> angleY (run st evs) < 360)"
proof -
  have a: "autoRotationActive st \<longrightarrow>
      angleY (autoRotateTick st) = js_rem (angleY st + 1) 360
      \<and> (0 \<le> angleY st \<and> angleY st < 359 \<longrightarrow> angleY (autoRotateTick st) = angleY st + 1)
      \<and> (angleY st = 359 \<longrightarrow> angleY (autoRotateTick st) = 0)"
    using js_rem_small [of "angleY st + 1"] js_rem_360
    by (simp add: autoRotateTick_def)
  have b: "isDrawingMode st \<or> isPanning st \<or> truthy (draggingLabelId st) \<longrightarrow>
        autoRotateTick st = st"
    by (auto simp: autoRotateTick_def autoRotationActive_def)
  show ?thesis using a b run_angleY_range [of st evs] by blast
qed

theorem autoRotateTick_steps_and_wraps_witness:
  "autoRotationActive rotatingView
   \<and> angleY rotatingView = 359
   \<and> angleY (autoRotateTick rotatingView) = 0
   \<and> angleY (autoRotateTick (autoRotateTick rotatingView)) = 1
   \<and> isPanning (run rotatingView [PanModeButton, PointerDown (pointerAt 1 10 10)])
   \<and> run rotatingView [PanModeButton, PointerDown (pointerAt 1 10 10), TimerTick]
       = run rotatingView [PanModeButton, PointerDown (pointerAt 1 10 10)]
   \<and> angleY (run rotatingView [TimerTick, TimerTick, TimerTick]) < 360"
proof -
  have act: "autoRotationActive rotatingView"
    by (simp add: rotatingView_def initialState_def autoRotationActive_def truthy_def
        triangleDoc_def)
  have a359: "angleY rotatingView = 359"
    by (simp add: rotatingView_def initialState_def)
  have t0: "angleY (autoRotateTick rotatingView) = 0"
    using autoRotateTick_steps_and_wraps [of rotatingView "[]"] act a359 by simp
  have act1: "autoRotationActive (autoRotateTick rotatingView)"
    using act by (simp add: autoRotateTick_def autoRotationActive_def)
  have t1: "angleY (autoRotateTick (autoRotateTick rotatingView)) = 1"
    using autoRotateTick_steps_and_wraps [of "autoRotateTick rotatingView" "[]"] act1 t0
    by simp
  have pan: "isPanning (run rotatingView [PanModeButton, PointerDown (pointerAt 1 10 10)])"
    by (simp add: run_def rotatingView_def initialState_def togglePanMode_def
        handlePointerDown_def pointerAt_def Let_def)
  have stop: "run rotatingView [PanModeButton, PointerDown (pointerAt 1 10 10), TimerTick]
       = run rotatingView [PanModeButton, PointerDown (pointerAt 1 10 10)]"
    using autoRotateTick_steps_and_wraps
            [of "run rotatingView [PanModeButton, PointerDown (pointerAt 1 10 10)]" "[]"] pan
    by (simp add: run_def)
  have bound: "angleY (run rotatingView [TimerTick, TimerTick, TimerTick]) < 360"
    using autoRotateTick_steps_and_wraps [of rotatingView "[TimerTick, TimerTick, TimerTick]"]
      a359 by simp
  show ?thesis using act a359 t0 t1 pan stop bound by blast
qed

section \<open>Freehand strokes\<close>

lemmas example_defs = triangleView_def triangleDoc_def initialState_def pointA_def pointB_def
  pointC_def mkPoint3D_def mkEdge_def pointerAt_def

lemma length_map_set:
  "length (map_set m k v) = (if map_of m k = None then Suc (length m) else length m)"
  by (induction m) auto

lemma down_seeds_stroke:
  assumes "isDrawingMode st" "\<not> isPanMode st" "\<not> isSpacePanning st" "\<not> isPanning st"
    "\<not> truthy (draggingLabelId st)" "pointersRef st = []" "containerRef st = Some rect"
    "button e \<noteq> 1" "\<not> altKey e"
  shows "strokeInProgress st rect (handlePointerDown e st)
         \<and> currentStroke (handlePointerDown e st) = [worldOf st rect e]"
  using assms
  by (simp add: handlePointerDown_def toolDispatch_def Let_def strokeInProgress_def
      worldOf_def toWorld_def)

lemma move_appends:
  assumes "strokeInProgress st rect s"
  shows "strokeInProgress st rect (handlePointerMove e s)
         \<and> currentStroke (handlePointerMove e s) = currentStroke s @ [worldOf st rect e]"
  using assms
  by (simp add: handlePointerMove_def Let_def strokeInProgress_def worldOf_def toWorld_def
      length_map_set map_has_def)

lemma moves_append:
  "strokeInProgress st rect s \<Longrightarrow>
     strokeInProgress st rect (foldl step s (map PointerMove ms))
     \<and> currentStroke (foldl step s (map PointerMove ms))
         = currentStroke s @ map (worldOf st rect) ms"
proof (induction ms arbitrary: s)
  case Nil
  then show ?case by simp
next
  case (Cons m ms)
  from move_appends [OF Cons.prems, of m]
  have 1: "strokeInProgress st rect (handlePointerMove m s)"
    and 2: "currentStroke (handlePointerMove m s) = currentStroke s @ [worldOf st rect m]"
    by simp_all
  from Cons.IH [OF 1] 2 show ?case by simp
qed

lemma up_finalizes:
  assumes "strokeInProgress st rect s" "data st = Some d"
  shows "data (handlePointerUp now e s) =
           Some (d\<lparr>drawings := Some ((case drawings d of None \<Rightarrow> [] | Some ds \<Rightarrow> ds)
              @ [\<lparr>sid = now, spoints = currentStroke s, scolor = drawingColor st,
                  swidth = 3\<rparr>])\<rparr>)
         \<and> currentStroke (handlePointerUp now e s) = []"
  using assms
  by (simp add: handlePointerUp_def finalizeStroke_def Let_def strokeInProgress_def)

text \<open>
  C2, as amended. In draw mode, with a document loaded, no other pointer down and no pan
  in force, a pointer-down followed by any pointer-moves and a pointer-up appends exactly
  one stroke to the document's drawings: its points are the world position of the
  pointer-down followed by the world positions of the moves, in order. For the moves
  (0,0), (1,1), (2,0) that is a stroke of four points; for a tap with no move it is a
  stroke of one point, the position of the pointer-down.
\<close>

theorem stroke_is_down_point_then_moves:
  assumes "isDrawingMode st" "\<not> isPanMode st" "\<not> isSpacePanning st" "\<not> isPanning st"
    "\<not> truthy (draggingLabelId st)" "pointersRef st = []" "containerRef st = Some rect"
    "data st = Some d" "button dn \<noteq> 1" "\<not> altKey dn"
  shows "data (run st (PointerDown dn # map PointerMove ms @ [PointerUp now up])) =
           Some (d\<lparr>drawings := Some ((case drawings d of None \<Rightarrow> [] | Some ds \<Rightarrow> ds)
              @ [\<lparr>sid = now, spoints = worldOf st rect dn # map (worldOf st rect) ms,
                  scolor = drawingColor st, swidth = 3\<rparr>])\<rparr>)
         \<and> currentStroke (run st (PointerDown dn # map PointerMove ms @ [PointerUp now up]))
             = []"
proof -
  from down_seeds_stroke [OF assms(1-7) assms(9,10)]
  have 1: "strokeInProgress st rect (handlePointerDown dn st)"
    and 2: "currentStroke (handlePointerDown dn st) = [worldOf st rect dn]"
    by simp_all
  from moves_append [OF 1, of ms] 2
  have 3: "strokeInProgress st rect (foldl step (handlePointerDown dn st) (map PointerMove ms))"
    and 4: "currentStroke (foldl step (handlePointerDown dn st) (map PointerMove ms))
              = worldOf st rect dn # map (worldOf st rect) ms"
    by simp_all
  from up_finalizes [OF 3 assms(8), of now up] 4
  show ?thesis by (simp add: run_def)
qed

theorem stroke_is_down_point_then_moves_witness:
  "map spoints (finalizedStrokes (run drawView
      [PointerDown (pointerAt 1 380 310), PointerMove (pointerAt 1 400 300),
       PointerMove (pointerAt 1 425 325), PointerMove (pointerAt 1 450 300),
       PointerUp 7 (pointerAt 1 450 300)]))
     = [[\<lparr>px = - 0.8, py = 0.4\<rparr>, \<lparr>px = 0, py = 0\<rparr>, \<lparr>px = 1, py = 1\<rparr>,
         \<lparr>px = 2, py = 0\<rparr>]]
   \<and> map spoints (finalizedStrokes (run drawView
      [PointerDown (pointerAt 1 380 310), PointerUp 7 (pointerAt 1 380 310)]))
     = [[\<lparr>px = - 0.8, py = 0.4\<rparr>]]"
proof -
  let ?rect = "\<lparr>rect_left = 0, rect_top = 0\<rparr>"
  have pre: "isDrawingMode drawView" "\<not> isPanMode drawView" "\<not> isSpacePanning drawView"
    "\<not> isPanning drawView" "\<not> truthy (draggingLabelId drawView)" "pointersRef drawView = []"
    "containerRef drawView = Some ?rect" "data drawView = Some triangleDoc"
    "button (pointerAt 1 380 310) \<noteq> 1" "\<not> altKey (pointerAt 1 380 310)"
    by (simp_all add: drawView_def toggleDrawingMode_def triangleView_def initialState_def
        pointerAt_def truthy_def Let_def)
  have w: "worldOf drawView ?rect (pointerAt 1 380 310) = \<lparr>px = - 0.8, py = 0.4\<rparr>"
    "worldOf drawView ?rect (pointerAt 1 400 300) = \<lparr>px = 0, py = 0\<rparr>"
    "worldOf drawView ?rect (pointerAt 1 425 325) = \<lparr>px = 1, py = 1\<rparr>"
    "worldOf drawView ?rect (pointerAt 1 450 300) = \<lparr>px = 2, py = 0\<rparr>"
    by (simp_all add: worldOf_def toWorld_def drawView_def toggleDrawingMode_def
        triangleView_def initialState_def pointerAt_def Let_def)
  have a: "map spoints (finalizedStrokes (run drawView
      [PointerDown (pointerAt 1 380 310), PointerMove (pointerAt 1 400 300),
       PointerMove (pointerAt 1 425 325), PointerMove (pointerAt 1 450 300),
       PointerUp 7 (pointerAt 1 450 300)]))
     = [[\<lparr>px = - 0.8, py = 0.4\<rparr>, \<lparr>px = 0, py = 0\<rparr>, \<lparr>px = 1, py = 1\<rparr>,
         \<lparr>px = 2, py = 0\<rparr>]]"
    using stroke_is_down_point_then_moves [OF pre,
        of "[pointerAt 1 400 300, pointerAt 1 425 325, pointerAt 1 450 300]" 7
           "pointerAt 1 450 300"] w
    by (simp add: finalizedStrokes_def triangleDoc_def)
  have b: "map spoints (finalizedStrokes (run drawView
      [PointerDown (pointerAt 1 380 310), PointerUp 7 (pointerAt 1 380 310)]))
     = [[\<lparr>px = - 0.8, py = 0.4\<rparr>]]"
    using stroke_is_down_point_then_moves [OF pre, of "[]" 7 "pointerAt 1 380 310"] w
    by (simp add: finalizedStrokes_def triangleDoc_def)
  show ?thesis using a b by simp
qed

text \<open>
  C2 as stated fails on the code. A tap in draw mode (pointer-down and pointer-up at the
  same place, no move) finalises a stroke of one point, and a pointer-down at the world
  position (0,0) followed by moves at (0,0), (1,1), (2,0) finalises a stroke of four
  points, not three.
\<close>

theorem tap_finalizes_a_stroke:
  "map spoints (finalizedStrokes (run triangleView
      [DrawModeButton, PointerDown (pointerAt 1 400 300), PointerUp 7 (pointerAt 1 400 300)]))
     = [[\<lparr>px = 0, py = 0\<rparr>]]
   \<and> finalizedStrokes (run triangleView
      [DrawModeButton, PointerDown (pointerAt 1 400 300), PointerUp 7 (pointerAt 1 400 300)])
     \<noteq> []
   \<and> map spoints (finalizedStrokes (run triangleView
      [DrawModeButton, PointerDown (pointerAt 1 400 300), PointerMove (pointerAt 1 400 300),
       PointerMove (pointerAt 1 425 325), PointerMove (pointerAt 1 450 300),
       PointerUp 7 (pointerAt 1 450 300)]))
     = [[\<lparr>px = 0, py = 0\<rparr>, \<lparr>px = 0, py = 0\<rparr>, \<lparr>px = 1, py = 1\<rparr>, \<lparr>px = 2, py = 0\<rparr>]]
   \<and> map spoints (finalizedStrokes (run triangleView
      [DrawModeButton, PointerDown (pointerAt 1 400 300), PointerMove (pointerAt 1 400 300),
       PointerMove (pointerAt 1 425 325), PointerMove (pointerAt 1 450 300),
       PointerUp 7 (pointerAt 1 450 300)]))
     \<noteq> [[\<lparr>px = 0, py = 0\<rparr>, \<lparr>px = 1, py = 1\<rparr>, \<lparr>px = 2, py = 0\<rparr>]]"
  by (simp add: run_def example_defs toggleDrawingMode_def handlePointerDown_def
      toolDispatch_def handlePointerMove_def handlePointerUp_def finalizeStroke_def
      finalizedStrokes_def toWorld_def map_delete_def map_has_def truthy_def Let_def)

section \<open>Label positions\<close>

lemma map_of_map_set:
  "map_of (map_set m k v) k' = (if k' = k then Some v else map_of m k')"
  by (induction m) auto

lemma map_get_map_set:
  "map_get (map_set m k v) k' = (if k' = k then Some v else map_get m k')"
  by (simp add: map_get_def map_of_map_set)

lemma projected_foldl_other:
  "k \<notin> pid ` set ps \<Longrightarrow>
     map_get (foldl (\<lambda>m q. map_set m (pid q) (f q)) m0 ps) k = map_get m0 k"
  by (induction ps arbitrary: m0) (simp_all add: map_get_map_set)

lemma projected_foldl_member:
  "p \<in> set ps \<Longrightarrow> distinct (map pid ps) \<Longrightarrow>
     map_get (foldl (\<lambda>m q. map_set m (pid q) (f q)) m0 ps) (pid p) = Some (f p)"
proof (induction ps arbitrary: m0)
  case Nil
  then show ?case by simp
next
  case (Cons q ps)
  show ?case
  proof (cases "p = q")
    case True
    with Cons.prems have "pid p \<notin> pid ` set ps" by auto
    then show ?thesis using True
      by (simp add: projected_foldl_other map_get_map_set)
  next
    case False
    with Cons.prems show ?thesis using Cons.IH by simp
  qed
qed

lemma projectedPoints_member:
  "data st = Some d \<Longrightarrow> p \<in> set (points d) \<Longrightarrow> distinct (map pid (points d)) \<Longrightarrow>
     map_get (projectedPoints st) (pid p) = Some (projectOne st p)"
  by (simp add: projectedPoints_def projected_foldl_member)

lemma placeLabel_other:
  "k \<noteq> pid q \<Longrightarrow> map_get (placeLabel pp c es m q) k = map_get m k"
  by (simp add: placeLabel_def Let_def map_get_map_set split: option.split)

lemma placeLabel_manual:
  "map_get pp (pid p) = Some pt \<Longrightarrow> labelOffset p = Some off \<Longrightarrow>
     map_get (placeLabel pp c es m p) (pid p)
       = Some \<lparr>px = px pt + px off, py = py pt + py off\<rparr>"
  by (simp add: placeLabel_def map_get_map_set)

lemma labels_foldl_other:
  "k \<notin> pid ` set ps \<Longrightarrow> map_get (foldl (placeLabel pp c es) m0 ps) k = map_get m0 k"
  by (induction ps arbitrary: m0) (simp_all add: placeLabel_other)

lemma labels_foldl_manual:
  "p \<in> set ps \<Longrightarrow> distinct (map pid ps) \<Longrightarrow> map_get pp (pid p) = Some pt \<Longrightarrow>
   labelOffset p = Some off \<Longrightarrow>
     map_get (foldl (placeLabel pp c es) m0 ps) (pid p)
       = Some \<lparr>px = px pt + px off, py = py pt + py off\<rparr>"
proof (induction ps arbitrary: m0)
  case Nil
  then show ?case by simp
next
  case (Cons q ps)
  show ?case
  proof (cases "p = q")
    case True
    with Cons.prems have "pid p \<notin> pid ` set ps" by auto
    then show ?thesis using True Cons.prems(3,4)
      by (simp add: labels_foldl_other placeLabel_manual)
  next
    case False
    with Cons.prems show ?thesis using Cons.IH by simp
  qed
qed

text \<open>
  C7. For a document whose point ids are distinct, a point that carries a manual
  \<open>labelOffset\<close> has its label rendered exactly at its projected position (projection
  plus pan) plus that offset, whatever the edges of the document are: the manual offset
  is taken before any neighbour is looked at.
\<close>

theorem manual_labelOffset_used_verbatim:
  assumes "data st = Some d" "distinct (map pid (points d))" "p \<in> set (points d)"
    "labelOffset p = Some off"
  shows "map_get (projectedPoints st) (pid p) = Some (projectOne st p)
    \<and> map_get (labelPositions st) (pid p)
        = Some \<lparr>px = px (projectOne st p) + px off, py = py (projectOne st p) + py off\<rparr>
    \<and> renderedLabelPos st p
        = Some \<lparr>px = px (projectOne st p) + px off, py = py (projectOne st p) + py off\<rparr>"
proof -
  have pp: "map_get (projectedPoints st) (pid p) = Some (projectOne st p)"
    using assms by (simp add: projectedPoints_member)
  have lp: "map_get (labelPositions st) (pid p)
        = Some \<lparr>px = px (projectOne st p) + px off, py = py (projectOne st p) + py off\<rparr>"
    using assms pp by (simp add: labelPositions_def Let_def labels_foldl_manual)
  show ?thesis using pp lp by (simp add: renderedLabelPos_def)
qed

lemma projectedPoints_triangleView:
  "projectedPoints triangleView =
     [(''A'', \<lparr>px = 400, py = 300\<rparr>), (''B'', \<lparr>px = 475, py = 300\<rparr>),
      (''C'', \<lparr>px = 400, py = 200\<rparr>)]"
  by (simp add: projectedPoints_def projectOne_def projectPoint_def example_defs Let_def)

lemma data_triangleView: "data triangleView = Some triangleDoc"
  by (simp add: triangleView_def initialState_def)

lemma labelPositions_triangleView:
  "labelPositions triangleView =
     [(''A'', \<lparr>px = 410, py = 295\<rparr>), (''B'', \<lparr>px = 475, py = 330\<rparr>),
      (''C'', \<lparr>px = 400, py = 170\<rparr>)]"
  by (simp add: labelPositions_def data_triangleView projectedPoints_triangleView placeLabel_def
      map_get_def Let_def triangleDoc_def pointA_def pointB_def pointC_def mkPoint3D_def)

theorem manual_labelOffset_used_verbatim_witness:
  "renderedLabelPos triangleView pointA = Some \<lparr>px = 410, py = 295\<rparr>
   \<and> projectOne triangleView pointA = \<lparr>px = 400, py = 300\<rparr>
   \<and> labelOffset pointA = Some \<lparr>px = 10, py = - 5\<rparr>"
proof -
  have p: "projectOne triangleView pointA = \<lparr>px = 400, py = 300\<rparr>"
    by (simp add: projectOne_def projectPoint_def example_defs Let_def)
  have "renderedLabelPos triangleView pointA = Some \<lparr>px = 410, py = 295\<rparr>"
    using manual_labelOffset_used_verbatim
            [of triangleView triangleDoc pointA "\<lparr>px = 10, py = - 5\<rparr>"] p
    by (simp add: example_defs)
  with p show ?thesis by (simp add: pointA_def)
qed

section \<open>Hit testing\<close>

lemma projectedPoints_frame:
  "projectedPoints (st\<lparr>pointersRef := a, lastPointerPos := b\<rparr>) = projectedPoints st"
  by (simp add: projectedPoints_def projectOne_def split: option.split)

lemma labelPositions_frame:
  "labelPositions (st\<lparr>pointersRef := a, lastPointerPos := b\<rparr>) = labelPositions st"
  by (simp add: labelPositions_def projectedPoints_frame split: option.split)

lemma hitTest_frame:
  "hitTest (st\<lparr>pointersRef := a, lastPointerPos := b\<rparr>) x y = hitTest st x y"
  by (simp add: hitTest_def projectedPoints_frame labelPositions_frame Let_def
      split: option.split)

lemma findLabel_first:
  "i < length ps \<Longrightarrow> labelHit lps x y (ps ! i) \<Longrightarrow> \<forall>j<i. \<not> labelHit lps x y (ps ! j) \<Longrightarrow>
     findLabel lps x y ps = Some (pid (ps ! i))"
proof (induction ps arbitrary: i)
  case Nil
  then show ?case by simp
next
  case (Cons p ps)
  show ?case
  proof (cases i)
    case 0
    with Cons.prems show ?thesis by simp
  next
    case (Suc k)
    with Cons.prems have "\<not> labelHit lps x y p" by auto
    moreover have "\<forall>j<k. \<not> labelHit lps x y (ps ! j)"
    proof (intro allI impI)
      fix j assume "j < k"
      then have "Suc j < i" using Suc by simp
      with Cons.prems(3) have "\<not> labelHit lps x y ((p # ps) ! Suc j)" by blast
      then show "\<not> labelHit lps x y (ps ! j)" by simp
    qed
    then have "findLabel lps x y ps = Some (pid (ps ! k))"
      using Cons.IH [of k] Cons.prems(1,2) Suc by simp
    ultimately show ?thesis using Suc by simp
  qed
qed

lemma findLabel_none: "(\<forall>p\<in>set ps. \<not> labelHit lps x y p) \<Longrightarrow> findLabel lps x y ps = None"
  by (induction ps) simp_all

lemma findLabel_some:
  "(\<exists>p\<in>set ps. labelHit lps x y p) \<Longrightarrow>
     \<exists>p\<in>set ps. labelHit lps x y p \<and> findLabel lps x y ps = Some (pid p)"
  by (induction ps) auto

lemma findPoint_first:
  "i < length ps \<Longrightarrow> pointHit pp x y (ps ! i) \<Longrightarrow> \<forall>j<i. \<not> pointHit pp x y (ps ! j) \<Longrightarrow>
     findPoint pp x y ps = Some (pid (ps ! i))"
proof (induction ps arbitrary: i)
  case Nil
  then show ?case by simp
next
  case (Cons p ps)
  show ?case
  proof (cases i)
    case 0
    with Cons.prems show ?thesis by simp
  next
    case (Suc k)
    with Cons.prems have "\<not> pointHit pp x y p" by auto
    moreover have "\<forall>j<k. \<not> pointHit pp x y (ps ! j)"
    proof (intro allI impI)
      fix j assume "j < k"
      then have "Suc j < i" using Suc by simp
      with Cons.prems(3) have "\<not> pointHit pp x y ((p # ps) ! Suc j)" by blast
      then show "\<not> pointHit pp x y (ps ! j)" by simp
    qed
    then have "findPoint pp x y ps = Some (pid (ps ! k))"
      using Cons.IH [of k] Cons.prems(1,2) Suc by simp
    ultimately show ?thesis using Suc by simp
  qed
qed

lemma findPoint_none: "(\<forall>p\<in>set ps. \<not> pointHit pp x y p) \<Longrightarrow> findPoint pp x y ps = None"
  by (induction ps) simp_all

lemma findEdge_first:
  "i < length es \<Longrightarrow> edgeHit pp x y (es ! i) \<Longrightarrow> \<forall>j<i. \<not> edgeHit pp x y (es ! j) \<Longrightarrow>
     findEdge pp x y es = Some (eid (es ! i))"
proof (induction es arbitrary: i)
  case Nil
  then show ?case by simp
next
  case (Cons e es)
  show ?case
  proof (cases i)
    case 0
    with Cons.prems show ?thesis by simp
  next
    case (Suc k)
    with Cons.prems have "\<not> edgeHit pp x y e" by auto
    moreover have "\<forall>j<k. \<not> edgeHit pp x y (es ! j)"
    proof (intro allI impI)
      fix j assume "j < k"
      then have "Suc j < i" using Suc by simp
      with Cons.prems(3) have "\<not> edgeHit pp x y ((e # es) ! Suc j)" by blast
      then show "\<not> edgeHit pp x y (es ! j)" by simp
    qed
    then have "findEdge pp x y es = Some (eid (es ! k))"
      using Cons.IH [of k] Cons.prems(1,2) Suc by simp
    ultimately show ?thesis using Suc by simp
  qed
qed

lemma findEdge_none: "(\<forall>e\<in>set es. \<not> edgeHit pp x y e) \<Longrightarrow> findEdge pp x y es = None"
  by (induction es) simp_all

text \<open>
  C5. The hit test of a pointer-down resolves its target in the order labels, points,
  edges. The first point in document order whose label box holds the coordinate wins,
  and a label hit wins whatever points or edges also cover the coordinate; without a
  label hit, the first point whose disc holds the coordinate wins; without a label or
  point hit, the first edge whose segment is within the tolerance wins; otherwise
  nothing is hit. (A point or edge counts as a target when its id is not the empty
  string, which JavaScript treats as no id.)
\<close>

theorem hitTest_priority:
  assumes d: "data st = Some d"
  shows
   "(\<forall>i. i < length (points d) \<and> labelHit (labelPositions st) x y (points d ! i)
          \<and> (\<forall>j<i. \<not> labelHit (labelPositions st) x y (points d ! j))
        \<longrightarrow> hitTest st x y = LabelHit (pid (points d ! i)))
    \<and> ((\<exists>p\<in>set (points d). labelHit (labelPositions st) x y p)
        \<longrightarrow> (\<exists>p\<in>set (points d). labelHit (labelPositions st) x y p
               \<and> hitTest st x y = LabelHit (pid p)))
    \<and> ((\<forall>p\<in>set (points d). \<not> labelHit (labelPositions st) x y p)
        \<longrightarrow> (\<forall>i. i < length (points d) \<and> pointHit (projectedPoints st) x y (points d ! i)
                  \<and> (\<forall>j<i. \<not> pointHit (projectedPoints st) x y (points d ! j))
                  \<and> pid (points d ! i) \<noteq> []
               \<longrightarrow> hitTest st x y = NodeHit (pid (points d ! i))))
    \<and> ((\<forall>p\<in>set (points d). \<not> labelHit (labelPositions st) x y p
                               \<and> \<not> pointHit (projectedPoints st) x y p)
        \<longrightarrow> (\<forall>i. i < length (edges d) \<and> edgeHit (projectedPoints st) x y (edges d ! i)
                  \<and> (\<forall>j<i. \<not> edgeHit (projectedPoints st) x y (edges d ! j))
                  \<and> eid (edges d ! i) \<noteq> []
               \<longrightarrow> hitTest st x y = NodeHit (eid (edges d ! i))))
    \<and> ((\<forall>p\<in>set (points d). \<not> labelHit (labelPositions st) x y p
                               \<and> \<not> pointHit (projectedPoints st) x y p)
        \<and> (\<forall>e\<in>set (edges d). \<not> edgeHit (projectedPoints st) x y e)
        \<longrightarrow> hitTest st x y = NoHit)"
proof -
  have 1: "\<forall>i. i < length (points d) \<and> labelHit (labelPositions st) x y (points d ! i)
          \<and> (\<forall>j<i. \<not> labelHit (labelPositions st) x y (points d ! j))
        \<longrightarrow> hitTest st x y = LabelHit (pid (points d ! i))"
    using d by (auto simp: hitTest_def dest: findLabel_first)
  have 2: "(\<exists>p\<in>set (points d). labelHit (labelPositions st) x y p)
        \<longrightarrow> (\<exists>p\<in>set (points d). labelHit (labelPositions st) x y p
               \<and> hitTest st x y = LabelHit (pid p))"
  proof
    assume "\<exists>p\<in>set (points d). labelHit (labelPositions st) x y p"
    from findLabel_some [OF this] obtain p where
      "p \<in> set (points d)" "labelHit (labelPositions st) x y p"
      "findLabel (labelPositions st) x y (points d) = Some (pid p)" by blast
    then show "\<exists>p\<in>set (points d). labelHit (labelPositions st) x y p
               \<and> hitTest st x y = LabelHit (pid p)"
      using d by (auto simp: hitTest_def)
  qed
  have 3: "(\<forall>p\<in>set (points d). \<not> labelHit (labelPositions st) x y p)
        \<longrightarrow> (\<forall>i. i < length (points d) \<and> pointHit (projectedPoints st) x y (points d ! i)
                  \<and> (\<forall>j<i. \<not> pointHit (projectedPoints st) x y (points d ! j))
                  \<and> pid (points d ! i) \<noteq> []
               \<longrightarrow> hitTest st x y = NodeHit (pid (points d ! i)))"
    using d by (auto simp: hitTest_def Let_def truthy_def findLabel_none dest: findPoint_first)
  have 4: "(\<forall>p\<in>set (points d). \<not> labelHit (labelPositions st) x y p
                               \<and> \<not> pointHit (projectedPoints st) x y p)
        \<longrightarrow> (\<forall>i. i < length (edges d) \<and> edgeHit (projectedPoints st) x y (edges d ! i)
                  \<and> (\<forall>j<i. \<not> edgeHit (projectedPoints st) x y (edges d ! j))
                  \<and> eid (edges d ! i) \<noteq> []
               \<longrightarrow> hitTest st x y = NodeHit (eid (edges d ! i)))"
    using d
    by (auto simp: hitTest_def Let_def truthy_def findLabel_none findPoint_none
        dest: findEdge_first)
  have 5: "(\<forall>p\<in>set (points d). \<not> labelHit (labelPositions st) x y p
                               \<and> \<not> pointHit (projectedPoints st) x y p)
        \<and> (\<forall>e\<in>set (edges d). \<not> edgeHit (projectedPoints st) x y e)
        \<longrightarrow> hitTest st x y = NoHit"
    using d
    by (auto simp: hitTest_def Let_def truthy_def findLabel_none findPoint_none findEdge_none)
  from 1 2 3 4 5 show ?thesis by blast
qed

lemma sqrt_less_15: "0 \<le> r \<Longrightarrow> (sqrt r < 15) = (r < 225)"
proof -
  assume "0 \<le> r"
  have "sqrt 225 = 15" using real_sqrt_abs2 [of 15] by simp
  then have "(sqrt r < 15) = (sqrt r < sqrt 225)" by simp
  also have "\<dots> = (r < 225)" by (rule real_sqrt_less_iff)
  finally show ?thesis .
qed

lemma points_triangleDoc: "points triangleDoc = [pointA, pointB, pointC]"
  and edges_triangleDoc: "edges triangleDoc = [mkEdge ''edge_AB'' ''A'' ''B'', mkEdge ''edge_AC'' ''A'' ''C'']"
  by (simp_all add: triangleDoc_def)

lemmas hit_eval = labelHit_def pointHit_def edgeHit_def segmentDistance_def map_get_def
  truthy_def Let_def labelPositions_triangleView projectedPoints_triangleView
  points_triangleDoc edges_triangleDoc pointA_def pointB_def pointC_def mkPoint3D_def mkEdge_def

theorem hitTest_priority_witness:
  "hitTest triangleView 400 300 = LabelHit ''A''
   \<and> pointHit (projectedPoints triangleView) 400 300 pointA
   \<and> hitTest triangleView 400 200 = NodeHit ''C''
   \<and> hitTest triangleView 440 300 = NodeHit ''edge_AB''
   \<and> hitTest triangleView 700 500 = NoHit"
proof -
  note d = data_triangleView
  let ?lps = "labelPositions triangleView" and ?pp = "projectedPoints triangleView"
  let ?ps = "points triangleDoc" and ?es = "edges triangleDoc"
  have pt: "pointHit ?pp 400 300 pointA"
    by (simp add: hit_eval)
  have "0 < length ?ps \<and> labelHit ?lps 400 300 (?ps ! 0) \<and> (\<forall>j<0. \<not> labelHit ?lps 400 300 (?ps ! j))"
    by (simp add: hit_eval)
  with hitTest_priority [OF d, of 400 300, THEN conjunct1, THEN spec, of 0]
  have "hitTest triangleView 400 300 = LabelHit (pid (?ps ! 0))" by blast
  then have 1: "hitTest triangleView 400 300 = LabelHit ''A''"
    by (simp add: points_triangleDoc pointA_def mkPoint3D_def)
  have nolab2: "\<forall>p\<in>set ?ps. \<not> labelHit ?lps 400 200 p"
    by (simp add: hit_eval)
  have "2 < length ?ps \<and> pointHit ?pp 400 200 (?ps ! 2)
     \<and> (\<forall>j<2. \<not> pointHit ?pp 400 200 (?ps ! j)) \<and> pid (?ps ! 2) \<noteq> []"
    by (simp add: hit_eval less_2_cases_iff)
  with hitTest_priority [OF d, of 400 200, THEN conjunct2, THEN conjunct2, THEN conjunct1,
      THEN mp, OF nolab2, THEN spec, of 2]
  have "hitTest triangleView 400 200 = NodeHit (pid (?ps ! 2))" by blast
  then have 2: "hitTest triangleView 400 200 = NodeHit ''C''"
    by (simp add: points_triangleDoc pointC_def mkPoint3D_def)
  have none3: "\<forall>p\<in>set ?ps. \<not> labelHit ?lps 440 300 p \<and> \<not> pointHit ?pp 440 300 p"
    by (simp add: hit_eval)
  have "0 < length ?es \<and> edgeHit ?pp 440 300 (?es ! 0)
     \<and> (\<forall>j<0. \<not> edgeHit ?pp 440 300 (?es ! j)) \<and> eid (?es ! 0) \<noteq> []"
    by (simp add: hit_eval)
  with hitTest_priority [OF d, of 440 300, THEN conjunct2, THEN conjunct2, THEN conjunct2,
      THEN conjunct1, THEN mp, OF none3, THEN spec, of 0]
  have "hitTest triangleView 440 300 = NodeHit (eid (?es ! 0))" by blast
  then have 3: "hitTest triangleView 440 300 = NodeHit ''edge_AB''"
    by (simp add: edges_triangleDoc mkEdge_def)
  have "(\<forall>p\<in>set ?ps. \<not> labelHit ?lps 700 500 p \<and> \<not> pointHit ?pp 700 500 p)
        \<and> (\<forall>e\<in>set ?es. \<not> edgeHit ?pp 700 500 e)"
    by (simp add: hit_eval sqrt_less_15)
  with hitTest_priority [OF d, of 700 500, THEN conjunct2, THEN conjunct2, THEN conjunct2,
      THEN conjunct2]
  have 4: "hitTest triangleView 700 500 = NoHit" by blast
  show ?thesis using 1 pt 2 3 4 by simp
qed

text \<open>
  What \<open>handlePointerDown\<close> does with the outcome when the hit test runs (primary
  button, no tool or space pan, no other pointer down): a label hit starts the drag of
  that label and leaves the selection alone.
\<close>

lemma handlePointerDown_label_hit:
  assumes "button e \<noteq> 1" "\<not> isPanMode st" "\<not> isDrawingMode st" "\<not> isSpacePanning st"
    "pointersRef st = []" "containerRef st = Some rect"
    "hitTest st (clientX e - rect_left rect) (clientY e - rect_top rect) = LabelHit i"
  shows "draggingLabelId (handlePointerDown e st) = Some i
         \<and> selectedElements (handlePointerDown e st) = selectedElements st"
  using assms by (simp add: handlePointerDown_def Let_def hitTest_frame)

section \<open>Two-pointer moves\<close>

text \<open>
  C8, as amended. On a pointer-move while exactly two pointers are active (and the
  container is mounted), the moving pointer's position is replaced and the distance
  between the two pointers is taken. If a baseline distance is recorded, the scale
  becomes the scale times (1 + 0.01 * (distance - baseline)), clamped to [5, 200]; if
  none is recorded, the scale stays. The distance becomes the new baseline. When the
  moving pointer is the one whose previous position is the last recorded pointer
  position, the pan offset moves by the displacement of the midpoint of the two
  pointers, which is half the displacement of the moving pointer.
\<close>

theorem pinch_move_scales_from_baseline:
  assumes c: "containerRef st = Some rect"
    and two: "pointersRef st = [(i0, p0), (i1, p1)]"
    and q0: "q0 = (if pointerId e = i0 then \<lparr>px = clientX e, py = clientY e\<rparr> else p0)"
    and q1: "q1 = (if pointerId e \<noteq> i0 \<and> pointerId e = i1
                   then \<lparr>px = clientX e, py = clientY e\<rparr> else p1)"
  shows "pointersRef (handlePointerMove e st) = [(i0, q0), (i1, q1)]
    \<and> scale (handlePointerMove e st) =
        (case prevPinchDistRef st of
           None \<Rightarrow> scale st
         | Some prev \<Rightarrow>
             min (max 5 (scale st * (1 + (hypot (px q0 - px q1) (py q0 - py q1) - prev) * 0.01)))
               200)
    \<and> prevPinchDistRef (handlePointerMove e st) = Some (hypot (px q0 - px q1) (py q0 - py q1))
    \<and> (map_get (pointersRef st) (pointerId e) = Some (lastPointerPos st) \<longrightarrow>
         panOffset (handlePointerMove e st) =
           \<lparr>px = px (panOffset st) + (px (midpoint2 q0 q1) - px (midpoint2 p0 p1)),
            py = py (panOffset st) + (py (midpoint2 q0 q1) - py (midpoint2 p0 p1))\<rparr>)"
  using c two q0 q1
  by (simp add: handlePointerMove_def pinchMove_def Let_def map_has_def map_get_def
      map_values_def midpoint2_def field_simps split: option.split)

lemma hypot_axis: "hypot a 0 = \<bar>a\<bar>"
  by (simp add: hypot_def)

lemma hitTest_triangleView_100_100: "hitTest triangleView 100 100 = NoHit"
  by (simp add: hitTest_def data_triangleView hit_eval sqrt_less_15)

lemma pinchSeeded_eq:
  "pinchSeeded = triangleView
     \<lparr>pointersRef := [(1, \<lparr>px = 100, py = 100\<rparr>), (2, \<lparr>px = 200, py = 100\<rparr>)],
      lastPointerPos := \<lparr>px = 200, py = 100\<rparr>, isPanning := True,
      prevPinchDistRef := Some 100\<rparr>"
proof -
  have v: "\<not> isDrawingMode triangleView" "\<not> isPanMode triangleView" "\<not> isSpacePanning triangleView"
    "pointersRef triangleView = []" "containerRef triangleView = Some \<lparr>rect_left = 0, rect_top = 0\<rparr>"
    "selectedElements triangleView = []"
    by (simp_all add: triangleView_def initialState_def)
  have 1: "handlePointerDown (pointerAt 1 100 100) triangleView =
     triangleView\<lparr>pointersRef := [(1, \<lparr>px = 100, py = 100\<rparr>)],
        lastPointerPos := \<lparr>px = 100, py = 100\<rparr>\<rparr>"
    using v by (simp add: handlePointerDown_def pointerAt_def Let_def hitTest_frame
        hitTest_triangleView_100_100 toolDispatch_def)
  show ?thesis
    using v by (simp add: pinchSeeded_def run_def 1)
     (simp add: handlePointerDown_def pointerAt_def Let_def toolDispatch_def map_values_def
        hypot_axis)
qed


lemma pinchUnseeded_eq:
  "pinchUnseeded = triangleView
     \<lparr>isPanMode := True,
      pointersRef := [(1, \<lparr>px = 100, py = 100\<rparr>), (2, \<lparr>px = 200, py = 100\<rparr>)],
      lastPointerPos := \<lparr>px = 200, py = 100\<rparr>, isPanning := True\<rparr>"
  by (simp add: pinchUnseeded_def run_def togglePanMode_def handlePointerDown_def pointerAt_def
      Let_def triangleView_def initialState_def)

theorem pinch_move_scales_from_baseline_witness:
  "scale pinchSeeded = 25
   \<and> prevPinchDistRef pinchSeeded = Some 100
   \<and> scale (handlePointerMove (pointerAt 2 300 100) pinchSeeded) = 50
   \<and> prevPinchDistRef (handlePointerMove (pointerAt 2 300 100) pinchSeeded) = Some 200
   \<and> panOffset (handlePointerMove (pointerAt 2 300 100) pinchSeeded) = \<lparr>px = 50, py = 0\<rparr>"
proof -
  let ?e = "pointerAt 2 300 100"
  have c: "containerRef pinchSeeded = Some \<lparr>rect_left = 0, rect_top = 0\<rparr>"
    and two: "pointersRef pinchSeeded
                = [(1, \<lparr>px = 100, py = 100\<rparr>), (2, \<lparr>px = 200, py = 100\<rparr>)]"
    and s: "scale pinchSeeded = 25" and b: "prevPinchDistRef pinchSeeded = Some 100"
    and l: "lastPointerPos pinchSeeded = \<lparr>px = 200, py = 100\<rparr>"
    and p: "panOffset pinchSeeded = \<lparr>px = 0, py = 0\<rparr>"
    by (simp_all add: pinchSeeded_eq triangleView_def initialState_def)
  have q0: "\<lparr>px = 100, py = 100\<rparr> =
      (if pointerId ?e = 1 then \<lparr>px = clientX ?e, py = clientY ?e\<rparr>
       else \<lparr>px = 100, py = 100\<rparr>)"
    and q1: "\<lparr>px = 300, py = 100\<rparr> =
      (if pointerId ?e \<noteq> 1 \<and> pointerId ?e = 2 then \<lparr>px = clientX ?e, py = clientY ?e\<rparr>
       else \<lparr>px = 200, py = 100\<rparr>)"
    by (simp_all add: pointerAt_def)
  from pinch_move_scales_from_baseline [OF c two q0 q1] s b l p
  show ?thesis
    by (simp add: two map_get_def pointerAt_def midpoint2_def hypot_axis)
qed

text \<open>
  C8 as stated fails on the code. With the pan tool on, two pointers go down without a
  baseline distance being recorded; the first move then takes the pointers from 100
  apart to 200 apart and leaves the scale at 25. A following move of the other pointer
  shifts the pan offset by (-100, 5) although the midpoint of the pointers moved by
  (0, 5): the displacement is measured from the last event of either pointer.
\<close>

theorem pinch_without_baseline_keeps_scale:
  "map_values (pointersRef pinchUnseeded) = [\<lparr>px = 100, py = 100\<rparr>, \<lparr>px = 200, py = 100\<rparr>]
   \<and> prevPinchDistRef pinchUnseeded = None
   \<and> scale pinchUnseeded = 25
   \<and> map_values (pointersRef (run pinchUnseeded [PointerMove (pointerAt 2 300 100)]))
       = [\<lparr>px = 100, py = 100\<rparr>, \<lparr>px = 300, py = 100\<rparr>]
   \<and> scale (run pinchUnseeded [PointerMove (pointerAt 2 300 100)]) = 25
   \<and> prevPinchDistRef (run pinchUnseeded [PointerMove (pointerAt 2 300 100)]) = Some 200
   \<and> panOffset (run pinchUnseeded [PointerMove (pointerAt 2 300 100)]) = \<lparr>px = 50, py = 0\<rparr>
   \<and> map_values (pointersRef (run pinchUnseeded
         [PointerMove (pointerAt 2 300 100), PointerMove (pointerAt 1 100 110)]))
       = [\<lparr>px = 100, py = 110\<rparr>, \<lparr>px = 300, py = 100\<rparr>]
   \<and> panOffset (run pinchUnseeded
         [PointerMove (pointerAt 2 300 100), PointerMove (pointerAt 1 100 110)])
       = \<lparr>px = - 50, py = 5\<rparr>"
  by (simp add: pinchUnseeded_eq run_def handlePointerMove_def pinchMove_def pointerAt_def
      Let_def map_has_def map_values_def triangleView_def initialState_def hypot_axis)

end
